theory Spec2Isabelle
  imports Complex_Main
begin

section \<open>JavaScript numbers\<close>

text \<open>
  The engine computes on JavaScript numbers. A number is modelled as a real, or one of the
  three special values that JavaScript arithmetic produces where real arithmetic is undefined:
  \<open>PInf\<close> (Infinity), \<open>NInf\<close> (-Infinity) and \<open>NaN\<close>. Finite values are exact reals:
  rounding, overflow, underflow and the sign of zero are not modelled (a zero is +0).
  A numeric field that is absent at run time reads as \<open>undefined\<close>, which every operator
  used here treats as \<open>NaN\<close>; the one field with a default (\<open>depth\<close>) is an option.
\<close>

datatype jsnum = Num real | PInf | NInf | NaN

text \<open>Truthiness of a number: 0 and NaN are falsy.\<close>

fun truthy :: "jsnum \<Rightarrow> bool" where
  "truthy (Num a) = (a \<noteq> 0)"
| "truthy PInf = True"
| "truthy NInf = True"
| "truthy NaN = False"

text \<open>\<^verbatim>\<open>x || y\<close> on numbers.\<close>

definition js_or :: "jsnum \<Rightarrow> jsnum \<Rightarrow> jsnum" where
  "js_or x y = (if truthy x then x else y)"

text \<open>\<^verbatim>\<open>x + y\<close>\<close>

fun js_add :: "jsnum \<Rightarrow> jsnum \<Rightarrow> jsnum" where
  "js_add (Num a) (Num b) = Num (a + b)"
| "js_add NaN _ = NaN"
| "js_add _ NaN = NaN"
| "js_add PInf NInf = NaN"
| "js_add NInf PInf = NaN"
| "js_add PInf _ = PInf"
| "js_add _ PInf = PInf"
| "js_add NInf _ = NInf"
| "js_add _ NInf = NInf"

text \<open>\<^verbatim>\<open>x * y\<close>: infinity times zero is NaN.\<close>

fun js_mul :: "jsnum \<Rightarrow> jsnum \<Rightarrow> jsnum" where
  "js_mul (Num a) (Num b) = Num (a * b)"
| "js_mul NaN _ = NaN"
| "js_mul _ NaN = NaN"
| "js_mul PInf (Num b) = (if b = 0 then NaN else if 0 < b then PInf else NInf)"
| "js_mul NInf (Num b) = (if b = 0 then NaN else if 0 < b then NInf else PInf)"
| "js_mul (Num a) PInf = (if a = 0 then NaN else if 0 < a then PInf else NInf)"
| "js_mul (Num a) NInf = (if a = 0 then NaN else if 0 < a then NInf else PInf)"
| "js_mul PInf PInf = PInf"
| "js_mul PInf NInf = NInf"
| "js_mul NInf PInf = NInf"
| "js_mul NInf NInf = PInf"

text \<open>
  \<^verbatim>\<open>x / y\<close>: a nonzero number over zero is an infinity, zero over zero is NaN; nothing
  is raised.
\<close>

fun js_div :: "jsnum \<Rightarrow> jsnum \<Rightarrow> jsnum" where
  "js_div (Num a) (Num b) =
     (if b = 0 then (if a = 0 then NaN else if 0 < a then PInf else NInf) else Num (a / b))"
| "js_div NaN _ = NaN"
| "js_div _ NaN = NaN"
| "js_div (Num a) PInf = Num 0"
| "js_div (Num a) NInf = Num 0"
| "js_div PInf (Num b) = (if 0 \<le> b then PInf else NInf)"
| "js_div NInf (Num b) = (if 0 \<le> b then NInf else PInf)"
| "js_div PInf PInf = NaN"
| "js_div PInf NInf = NaN"
| "js_div NInf PInf = NaN"
| "js_div NInf NInf = NaN"

text \<open>\<^verbatim>\<open>Math.max(x, y)\<close> and \<^verbatim>\<open>Math.min(x, y)\<close>: NaN if either argument is NaN.\<close>

fun js_max :: "jsnum \<Rightarrow> jsnum \<Rightarrow> jsnum" where
  "js_max (Num a) (Num b) = Num (max a b)"
| "js_max NaN _ = NaN"
| "js_max _ NaN = NaN"
| "js_max PInf _ = PInf"
| "js_max _ PInf = PInf"
| "js_max NInf y = y"
| "js_max x NInf = x"

fun js_min :: "jsnum \<Rightarrow> jsnum \<Rightarrow> jsnum" where
  "js_min (Num a) (Num b) = Num (min a b)"
| "js_min NaN _ = NaN"
| "js_min _ NaN = NaN"
| "js_min NInf _ = NInf"
| "js_min _ NInf = NInf"
| "js_min PInf y = y"
| "js_min x PInf = x"

text \<open>\<^verbatim>\<open>Math.sqrt\<close>, \<^verbatim>\<open>Math.exp\<close>, \<^verbatim>\<open>Math.log\<close>.\<close>

fun js_sqrt :: "jsnum \<Rightarrow> jsnum" where
  "js_sqrt (Num a) = (if a < 0 then NaN else Num (sqrt a))"
| "js_sqrt PInf = PInf"
| "js_sqrt NInf = NaN"
| "js_sqrt NaN = NaN"

fun js_exp :: "jsnum \<Rightarrow> jsnum" where
  "js_exp (Num a) = Num (exp a)"
| "js_exp PInf = PInf"
| "js_exp NInf = Num 0"
| "js_exp NaN = NaN"

fun js_log :: "jsnum \<Rightarrow> jsnum" where
  "js_log (Num a) = (if a < 0 then NaN else if a = 0 then NInf else Num (ln a))"
| "js_log PInf = PInf"
| "js_log NInf = NaN"
| "js_log NaN = NaN"

text \<open>
  \<^verbatim>\<open>Math.pow(x, y)\<close> for a finite exponent \<open>y\<close> (every call of the engine passes a literal):
  a zero exponent gives 1 whatever the base; a zero base with a negative exponent gives
  Infinity; a negative base with a fractional exponent gives NaN.
\<close>

fun js_pow :: "jsnum \<Rightarrow> real \<Rightarrow> jsnum" where
  "js_pow x y =
     (if y = 0 then Num 1
      else case x of
        NaN \<Rightarrow> NaN
      | PInf \<Rightarrow> (if 0 < y then PInf else Num 0)
      | NInf \<Rightarrow> (if 0 < y then (if y \<in> \<int> \<and> odd \<lfloor>y\<rfloor> then NInf else PInf) else Num 0)
      | Num b \<Rightarrow>
          (if b = 0 then (if 0 < y then Num 0 else PInf)
           else if y \<in> \<int> then Num (b powi \<lfloor>y\<rfloor>)
           else if b < 0 then NaN
           else Num (b powr y)))"

text \<open>Comparisons: every comparison with NaN is false.\<close>

fun js_lt :: "jsnum \<Rightarrow> jsnum \<Rightarrow> bool" where
  "js_lt (Num a) (Num b) = (a < b)"
| "js_lt NaN _ = False"
| "js_lt _ NaN = False"
| "js_lt _ NInf = False"
| "js_lt PInf _ = False"
| "js_lt NInf _ = True"
| "js_lt _ PInf = True"

definition js_gt :: "jsnum \<Rightarrow> jsnum \<Rightarrow> bool" where
  "js_gt x y = js_lt y x"

fun js_le :: "jsnum \<Rightarrow> jsnum \<Rightarrow> bool" where
  "js_le (Num a) (Num b) = (a \<le> b)"
| "js_le NaN _ = False"
| "js_le _ NaN = False"
| "js_le NInf _ = True"
| "js_le _ PInf = True"
| "js_le _ NInf = False"
| "js_le PInf _ = False"

definition is_finite :: "jsnum \<Rightarrow> bool" where
  "is_finite x = (case x of Num _ \<Rightarrow> True | _ \<Rightarrow> False)"

section \<open>The data model\<close>

text \<open>
  Modelled from the spec: the enumerations of \<^verbatim>\<open>types.ts\<close>, which is not among the
  sources; section 3 of the specification lists their members. The engine compares them
  with \<^verbatim>\<open>===\<close> only.
\<close>

datatype ConduitType = PIPE | CHANNEL
datatype ConduitShape = CIRCULAR | RECTANGULAR
datatype MixerModel = NONE | KENICS_KM | HEV | STM
datatype InjectionType = SINGLE | TWIN

text \<open>
  The input record, with the fields that \<^verbatim>\<open>calculateMixing\<close> destructures. The field
  \<^verbatim>\<open>pitchRatio\<close> (an enumeration of \<^verbatim>\<open>types.ts\<close>) and the label \<^verbatim>\<open>chemicalType\<close> are never
  read by the calculation and are left out.
\<close>

record MixingInputs =
  conduitType :: ConduitType
  conduitShape :: ConduitShape
  mixerModel :: MixerModel
  numElements :: jsnum
  flowRate :: jsnum
  dimension :: jsnum
  depth :: "jsnum option"
  availableLength :: jsnum
  viscosity :: jsnum
  density :: jsnum
  chemicalDose :: jsnum
  chemicalFlow :: jsnum
  chemicalDensity :: jsnum
  chemicalViscosity :: jsnum
  dilutionWaterFlow :: jsnum
  targetCoV :: jsnum
  targetMixingTime :: jsnum
  injectionType :: InjectionType
  waterTemperature :: jsnum

record CalculationResults =
  velocity :: jsnum
  reynoldsNumber :: jsnum
  momentumRatio :: jsnum
  momentumRegime :: string
  mixerCoV :: jsnum
  viscosityRatio :: jsnum
  injectedViscosity :: jsnum
  injectedDensity :: jsnum
  totalInjectionFlow :: jsnum
  isCompliant :: bool
  isTimeCompliant :: bool
  mixingDistanceNeeded :: jsnum
  mixingTimeNeeded :: jsnum
  headloss :: jsnum
  headlossMeters :: jsnum
  gValue :: jsnum
  limeSaturationLimit :: jsnum
  dissolvedAtTarget :: jsnum
  timeTo95Dissolution :: jsnum
  distanceTo95Dissolution :: jsnum
  suggestedOrificeDiameter :: jsnum
  manufacturerNotes :: string
  hydraulicDiameter :: jsnum
  wettedArea :: jsnum

section \<open>calculateMixing\<close>

text \<open>
  Each local constant of \<^verbatim>\<open>calculateMixing\<close> is a definition over the input record, named
  after the local with the suffix \<open>_of\<close>; the expressions keep the source's order of
  operations.
\<close>

definition g_const :: jsnum where "g_const = Num 9.81"
definition waterDensity :: jsnum where "waterDensity = Num 1000"
definition waterViscosity :: jsnum where "waterViscosity = Num 0.001"

text \<open>\<^verbatim>\<open>depth = 0.6\<close> in the destructuring: the default applies when the field is absent.\<close>

definition depth_of :: "MixingInputs \<Rightarrow> jsnum" where
  "depth_of i = (case depth i of None \<Rightarrow> Num 0.6 | Some x \<Rightarrow> x)"

definition d_of :: "MixingInputs \<Rightarrow> jsnum" where
  "d_of i = js_max (js_or (dimension i) (Num 0.001)) (Num 0.001)"

definition h_of :: "MixingInputs \<Rightarrow> jsnum" where
  "h_of i = js_max (js_or (depth_of i) (Num 0.001)) (Num 0.001)"

definition Q_m3h_of :: "MixingInputs \<Rightarrow> jsnum" where
  "Q_m3h_of i = js_max (js_or (flowRate i) (Num 1)) (Num 1)"

definition totalInjLh_of :: "MixingInputs \<Rightarrow> jsnum" where
  "totalInjLh_of i = js_add (js_or (chemicalFlow i) (Num 0)) (js_or (dilutionWaterFlow i) (Num 0))"

definition totalInjM3s_of :: "MixingInputs \<Rightarrow> jsnum" where
  "totalInjM3s_of i = js_div (totalInjLh_of i) (Num 3600000)"

definition injDensity_of :: "MixingInputs \<Rightarrow> jsnum" where
  "injDensity_of i =
     js_div
       (js_add (js_mul (js_or (chemicalFlow i) (Num 0)) (js_or (chemicalDensity i) (Num 1000)))
               (js_mul (js_or (dilutionWaterFlow i) (Num 0)) waterDensity))
       (js_or (totalInjLh_of i) (Num 1))"

definition injVisc_of :: "MixingInputs \<Rightarrow> jsnum" where
  "injVisc_of i =
     js_exp (js_div
       (js_add (js_mul (js_or (chemicalFlow i) (Num 0))
                       (js_log (js_or (chemicalViscosity i) (Num 0.000001))))
               (js_mul (js_or (dilutionWaterFlow i) (Num 0))
                       (js_log (js_or waterViscosity (Num 0.000001)))))
       (js_or (totalInjLh_of i) (Num 1)))"

definition area_of :: "MixingInputs \<Rightarrow> jsnum" where
  "area_of i =
     (if conduitType i = PIPE then
        (if conduitShape i = CIRCULAR
         then js_mul (Num pi) (js_pow (js_div (d_of i) (Num 2)) 2)
         else js_mul (d_of i) (h_of i))
      else js_mul (d_of i) (h_of i))"

definition Dh_of :: "MixingInputs \<Rightarrow> jsnum" where
  "Dh_of i =
     (if conduitType i = PIPE then
        (if conduitShape i = CIRCULAR
         then d_of i
         else js_div (js_mul (js_mul (Num 2) (d_of i)) (h_of i)) (js_add (d_of i) (h_of i)))
      else js_div (js_mul (Num 4) (area_of i)) (js_add (d_of i) (js_mul (Num 2) (h_of i))))"

definition velocity_of :: "MixingInputs \<Rightarrow> jsnum" where
  "velocity_of i = js_div (js_div (Q_m3h_of i) (Num 3600)) (js_or (area_of i) (Num 0.000001))"

definition Re_of :: "MixingInputs \<Rightarrow> jsnum" where
  "Re_of i =
     js_div (js_mul (js_mul (density i) (velocity_of i)) (Dh_of i))
            (js_or (viscosity i) (Num 0.000001))"

definition alpha_of :: "MixingInputs \<Rightarrow> jsnum" where
  "alpha_of i = js_div (js_mul (Q_m3h_of i) (Num 1000)) (js_or (totalInjLh_of i) (Num 1))"

definition LD_of :: "MixingInputs \<Rightarrow> jsnum" where
  "LD_of i = js_div (js_or (availableLength i) (Num 1)) (Dh_of i)"

text \<open>
  The \<^verbatim>\<open>switch\<close> on the mixer model assigns the three variables \<^verbatim>\<open>mixerCoV\<close>, \<^verbatim>\<open>FD\<close>
  and \<^verbatim>\<open>Lm\<close>; the \<^verbatim>\<open>default\<close> branch is the model NONE.
\<close>

definition switch_of :: "MixingInputs \<Rightarrow> jsnum \<times> jsnum \<times> jsnum" where
  "switch_of i =
     (case mixerModel i of
        KENICS_KM \<Rightarrow>
          (js_mul (js_mul (Num (if injectionType i = SINGLE then 0.96 else 0.38))
                          (js_pow (Re_of i) (- 0.1)))
                  (js_pow (numElements i) (- 1.9)),
           Num 1.8,
           js_mul (js_mul (numElements i) (Num 1.5)) (Dh_of i))
      | HEV \<Rightarrow>
          (js_mul (js_mul (Num 31.5) (js_pow (Re_of i) (- 0.2)))
                  (js_pow (numElements i) (- 1.7)),
           Num 0.6,
           js_mul (numElements i) (Dh_of i))
      | STM \<Rightarrow>
          (js_mul (js_mul (Num 0.29) (js_pow (Re_of i) (- 0.2)))
                  (js_pow (numElements i) (- 0.6)),
           Num 4.15,
           js_mul (js_mul (numElements i) (Num 0.8)) (Dh_of i))
      | NONE \<Rightarrow>
          (js_mul (js_mul (Num 2) (js_sqrt (alpha_of i)))
                  (js_exp (js_mul (js_mul (Num (- 0.75)) (js_sqrt (Num 0.02))) (LD_of i))),
           Num 0.02,
           availableLength i))"

definition mixerCoV_raw_of :: "MixingInputs \<Rightarrow> jsnum" where
  "mixerCoV_raw_of i = fst (switch_of i)"

definition FD_of :: "MixingInputs \<Rightarrow> jsnum" where
  "FD_of i = fst (snd (switch_of i))"

definition Lm_of :: "MixingInputs \<Rightarrow> jsnum" where
  "Lm_of i = snd (snd (switch_of i))"

text \<open>\<^verbatim>\<open>mixerCoV = Math.min(1.0, Math.max(0.0001, mixerCoV))\<close>\<close>

definition mixerCoV_of :: "MixingInputs \<Rightarrow> jsnum" where
  "mixerCoV_of i = js_min (Num 1.0) (js_max (Num 0.0001) (mixerCoV_raw_of i))"

definition headlossM_of :: "MixingInputs \<Rightarrow> jsnum" where
  "headlossM_of i =
     js_div (js_mul (js_mul (FD_of i) (Lm_of i)) (js_pow (velocity_of i) 2))
            (js_mul (js_mul (Num 2) g_const) (Dh_of i))"

definition headlossKpa_of :: "MixingInputs \<Rightarrow> jsnum" where
  "headlossKpa_of i = js_div (js_mul (js_mul (headlossM_of i) (density i)) g_const) (Num 1000)"

definition gValue_of :: "MixingInputs \<Rightarrow> jsnum" where
  "gValue_of i =
     js_sqrt (js_div
       (js_mul (js_mul (headlossKpa_of i) (Num 1000)) (js_div (Q_m3h_of i) (Num 3600)))
       (js_or (js_mul (js_mul (viscosity i) (area_of i)) (Lm_of i)) (Num 0.000000001)))"

definition decay_of :: "MixingInputs \<Rightarrow> jsnum" where
  "decay_of i =
     (if conduitType i = PIPE then js_mul (Num 0.75) (js_sqrt (Num 0.02)) else Num 0.6)"

definition tCoV_of :: "MixingInputs \<Rightarrow> jsnum" where
  "tCoV_of i = js_or (targetCoV i) (Num 0.05)"

definition mixingDistanceNeeded_of :: "MixingInputs \<Rightarrow> jsnum" where
  "mixingDistanceNeeded_of i =
     (if js_le (mixerCoV_of i) (tCoV_of i) then Lm_of i
      else js_add (Lm_of i)
             (js_mul (js_div (js_log (js_div (mixerCoV_of i) (tCoV_of i)))
                             (js_or (decay_of i) (Num 0.1)))
                     (Dh_of i)))"

definition uInj_of :: "MixingInputs \<Rightarrow> jsnum" where
  "uInj_of i =
     js_div (js_div (totalInjM3s_of i) (Num (if injectionType i = TWIN then 2 else 1)))
            (js_mul (Num pi) (js_pow (Num 0.0125) 2))"

definition momentumRatio_of :: "MixingInputs \<Rightarrow> jsnum" where
  "momentumRatio_of i =
     js_mul (js_sqrt (js_div (injDensity_of i) (density i)))
            (js_div (js_mul (uInj_of i) (Num 0.025))
                    (js_or (js_mul (velocity_of i) (Dh_of i)) (Num 0.000001)))"

text \<open>
  The regime label of the returned record,
  \<^verbatim>\<open>momentumRatio < 0.16 ? 'Low' : (momentumRatio > 0.24 ? 'High' : 'Intermediate')\<close>.
\<close>

definition regime_of :: "jsnum \<Rightarrow> string" where
  "regime_of r =
     (if js_lt r (Num 0.16) then ''Low''
      else if js_gt r (Num 0.24) then ''High'' else ''Intermediate'')"

definition calculateMixing :: "MixingInputs \<Rightarrow> CalculationResults" where
  "calculateMixing i =
     \<lparr> velocity = velocity_of i,
       reynoldsNumber = Re_of i,
       momentumRatio = momentumRatio_of i,
       momentumRegime = regime_of (momentumRatio_of i),
       mixerCoV = mixerCoV_of i,
       viscosityRatio = js_div (injVisc_of i) (viscosity i),
       injectedViscosity = injVisc_of i,
       injectedDensity = injDensity_of i,
       totalInjectionFlow = totalInjLh_of i,
       isCompliant = js_le (mixerCoV_of i) (tCoV_of i),
       isTimeCompliant =
         js_le (js_div (mixingDistanceNeeded_of i) (velocity_of i)) (targetMixingTime i),
       mixingDistanceNeeded = mixingDistanceNeeded_of i,
       mixingTimeNeeded = js_div (mixingDistanceNeeded_of i) (velocity_of i),
       headloss = headlossKpa_of i,
       headlossMeters = headlossM_of i,
       gValue = gValue_of i,
       limeSaturationLimit = Num 1500,
       dissolvedAtTarget = Num 100,
       timeTo95Dissolution = Num 5,
       distanceTo95Dissolution = Num 5,
       suggestedOrificeDiameter = Num 15,
       manufacturerNotes = ''Standard BHR quill recommendations.'',
       hydraulicDiameter = Dh_of i,
       wettedArea = area_of i \<rparr>"

text \<open>The record that the application starts from, which is the specification's scenario.\<close>

definition scenario :: MixingInputs where
  "scenario =
     \<lparr> conduitType = PIPE, conduitShape = CIRCULAR, mixerModel = NONE, numElements = Num 4,
       flowRate = Num 1500, dimension = Num 0.8, depth = Some (Num 0.6),
       availableLength = Num 10, viscosity = Num 0.001, density = Num 1000,
       chemicalDose = Num 1.0, chemicalFlow = Num 10, chemicalDensity = Num 1450,
       chemicalViscosity = Num 0.015, dilutionWaterFlow = Num 200, targetCoV = Num 0.05,
       targetMixingTime = Num 10.0, injectionType = SINGLE, waterTemperature = Num 15 \<rparr>"

text \<open>
  The value of \<^verbatim>\<open>Math.max(x || 0.001, 0.001)\<close> as a real, for every \<open>x\<close> other than
  Infinity: a number is raised to at least one millimetre, and 0, NaN and -Infinity give
  the floor itself.
\<close>

definition floored_mm :: "jsnum \<Rightarrow> real" where
  "floored_mm x = (case x of Num a \<Rightarrow> max a 0.001 | _ \<Rightarrow> 0.001)"

text \<open>
  The depth in metres as the geometry stage is specified to read the field \<^verbatim>\<open>depth\<close>:
  0.6 when the field is absent, otherwise the field raised to at least one millimetre.
\<close>

definition floored_depth :: "jsnum option \<Rightarrow> real" where
  "floored_depth x = (case x of None \<Rightarrow> 0.6 | Some y \<Rightarrow> floored_mm y)"

text \<open>
  A field is a finite number of magnitude at most \<open>b\<close>; a field that may be absent is absent
  or such a number. The engine's doubles overflow to Infinity near \<open>1.8e308\<close>, which exact
  reals do not, so the statements about arbitrary records that overflow would break are
  made for fields of magnitude at most \<open>range_limit\<close>, \<open>10 ^ 12\<close> in the unit of the field.
  There the velocity, the hydraulic diameter, the mixing length and the headloss have the
  magnitudes that the theorems state, far inside the range of a double.
\<close>

definition in_range :: "real \<Rightarrow> jsnum \<Rightarrow> bool" where
  "in_range b x = (case x of Num a \<Rightarrow> (abs a \<le> b) | _ \<Rightarrow> False)"

definition depth_in_range :: "real \<Rightarrow> jsnum option \<Rightarrow> bool" where
  "depth_in_range b x = (case x of None \<Rightarrow> True | Some y \<Rightarrow> in_range b y)"

definition range_limit :: real where
  "range_limit = 1000000000000"

text \<open>
  The inputs on which the sign claims about headloss and velocity are stated: the flow rate,
  the dimension, the depth (when present), the available length and the element count are
  finite numbers of magnitude at most \<open>range_limit\<close>, and the length and the element count
  are not negative.
\<close>

definition valid_inputs :: "MixingInputs \<Rightarrow> bool" where
  "valid_inputs i \<longleftrightarrow>
     in_range range_limit (flowRate i) \<and> in_range range_limit (dimension i)
     \<and> depth_in_range range_limit (depth i)
     \<and> in_range range_limit (availableLength i) \<and> js_le (Num 0) (availableLength i)
     \<and> in_range range_limit (numElements i) \<and> js_le (Num 0) (numElements i)"

text \<open>
  Records for the geometry: a channel and a rectangular duct 2 m wide and 1 m deep, and
  the 2 m channel with the depth absent and with the depth zero.
\<close>

definition channel_2x1 :: MixingInputs where
  "channel_2x1 = scenario \<lparr> conduitType := CHANNEL, conduitShape := RECTANGULAR,
                             dimension := Num 2, depth := Some (Num 1) \<rparr>"

definition duct_2x1 :: MixingInputs where
  "duct_2x1 = scenario \<lparr> conduitShape := RECTANGULAR,
                          dimension := Num 2, depth := Some (Num 1) \<rparr>"

definition channel_no_depth :: MixingInputs where
  "channel_no_depth = channel_2x1 \<lparr> depth := None \<rparr>"

definition channel_zero_depth :: MixingInputs where
  "channel_zero_depth = channel_2x1 \<lparr> depth := Some (Num 0) \<rparr>"

text \<open>
  The degenerate record of the specification: the scenario with the flow rate, the dimension
  and both injection flows zero; and the same record with these four fields absent.
\<close>

definition degenerate :: MixingInputs where
  "degenerate = scenario \<lparr> flowRate := Num 0, dimension := Num 0,
                            chemicalFlow := Num 0, dilutionWaterFlow := Num 0 \<rparr>"

definition degenerate_absent :: MixingInputs where
  "degenerate_absent = scenario \<lparr> flowRate := NaN, dimension := NaN,
                                   chemicalFlow := NaN, dilutionWaterFlow := NaN \<rparr>"

text \<open>Every numeric field of a result is a finite number.\<close>

definition all_finite :: "CalculationResults \<Rightarrow> bool" where
  "all_finite r \<longleftrightarrow>
     is_finite (velocity r) \<and> is_finite (reynoldsNumber r) \<and> is_finite (momentumRatio r)
     \<and> is_finite (mixerCoV r) \<and> is_finite (viscosityRatio r)
     \<and> is_finite (injectedViscosity r) \<and> is_finite (injectedDensity r)
     \<and> is_finite (totalInjectionFlow r) \<and> is_finite (mixingDistanceNeeded r)
     \<and> is_finite (mixingTimeNeeded r) \<and> is_finite (headloss r)
     \<and> is_finite (headlossMeters r) \<and> is_finite (gValue r)
     \<and> is_finite (limeSaturationLimit r) \<and> is_finite (dissolvedAtTarget r)
     \<and> is_finite (timeTo95Dissolution r) \<and> is_finite (distanceTo95Dissolution r)
     \<and> is_finite (suggestedOrificeDiameter r) \<and> is_finite (hydraulicDiameter r)
     \<and> is_finite (wettedArea r)"

text \<open>
  The blending rules in the specification's words, over the reals: the mass-flow-weighted
  density and the logarithmic mixing rule for the viscosity, the denominator replaced by 1
  when the total injection flow is zero. The arguments are the chemical flow, the chemical's
  density (viscosity) and the dilution water flow.
\<close>

definition blend_density_spec :: "real \<Rightarrow> real \<Rightarrow> real \<Rightarrow> real" where
  "blend_density_spec cf cd dw =
     (cf * cd + dw * 1000) / (if cf + dw = 0 then 1 else cf + dw)"

definition blend_viscosity_spec :: "real \<Rightarrow> real \<Rightarrow> real \<Rightarrow> real" where
  "blend_viscosity_spec cf cv dw =
     exp ((cf * ln cv + dw * ln 0.001) / (if cf + dw = 0 then 1 else cf + dw))"

text \<open>
  A narrow pipe with a dilution ratio of one, on which the natural-mixing correlation stays
  inside the clamp.
\<close>

definition short_pipe :: MixingInputs where
  "short_pipe = scenario \<lparr> flowRate := Num 1, dimension := Num 0.1,
                            chemicalFlow := Num 1000, dilutionWaterFlow := Num 0 \<rparr>"

text \<open>A result lies strictly between two reals (so it is a number, not NaN).\<close>

definition js_between :: "real \<Rightarrow> jsnum \<Rightarrow> real \<Rightarrow> bool" where
  "js_between lo x hi \<longleftrightarrow> js_lt (Num lo) x \<and> js_lt x (Num hi)"

section \<open>The retry wrapper of the external collaborators\<close>

text \<open>
  A thrown value, as far as \<^verbatim>\<open>callWithRetry\<close> inspects it: \<^verbatim>\<open>error?.message\<close> and
  \<^verbatim>\<open>error?.status\<close>, either of which may be missing. The response of the service is read
  through its \<^verbatim>\<open>text\<close> property only.
\<close>

record js_error =
  message :: "string option"
  status :: "int option"

record response =
  response_text :: "string option"

text \<open>\<^verbatim>\<open>s.includes(pat)\<close>\<close>

fun includes_str :: "string \<Rightarrow> string \<Rightarrow> bool" where
  "includes_str [] pat = (pat = [])"
| "includes_str (c # cs) pat = (take (length pat) (c # cs) = pat \<or> includes_str cs pat)"

text \<open>\<^verbatim>\<open>error?.message?.includes('429') || error?.status === 429\<close>\<close>

definition isRateLimit :: "js_error \<Rightarrow> bool" where
  "isRateLimit e =
     ((case message e of None \<Rightarrow> False | Some m \<Rightarrow> includes_str m ''429'')
      \<or> status e = Some 429)"

text \<open>
  The effects of a run, in order: a call of \<^verbatim>\<open>fn\<close>, or a \<^verbatim>\<open>setTimeout\<close> of so many
  milliseconds that the loop awaits.
\<close>

datatype event = Call | Sleep nat

text \<open>
  The \<^verbatim>\<open>for\<close> loop of \<^verbatim>\<open>callWithRetry\<close>. The operation \<^verbatim>\<open>fn\<close> is effectful: \<open>fn i\<close> is
  the outcome of its call in iteration \<open>i\<close>, \<open>Inl\<close> a rejection with the thrown value. The
  loop carries \<^verbatim>\<open>lastError\<close> (\<open>None\<close> is \<^verbatim>\<open>undefined\<close>) and the effects so far; it returns
  the effects and either the value or what is thrown.
\<close>

function callWithRetry_loop ::
  "(nat \<Rightarrow> js_error + 'a) \<Rightarrow> nat \<Rightarrow> nat \<Rightarrow> js_error option \<Rightarrow> event list
     \<Rightarrow> event list \<times> (js_error option + 'a)" where
  "callWithRetry_loop fn maxRetries i lastError tr =
     (if i < maxRetries then
        (case fn i of
           Inr v \<Rightarrow> (tr @ [Call], Inr v)
         | Inl e \<Rightarrow>
             (if i < maxRetries - 1 \<and> isRateLimit e
              then callWithRetry_loop fn maxRetries (i + 1) (Some e)
                     (tr @ [Call, Sleep (2 ^ i * 1000)])
              else (tr @ [Call], Inl (Some e))))
      else (tr, Inl lastError))"
  by pat_completeness auto
termination
  by (relation "measure (\<lambda>(fn, maxRetries, i, lastError, tr). maxRetries - i)") auto

declare callWithRetry_loop.simps [simp del]

definition callWithRetry ::
  "(nat \<Rightarrow> js_error + 'a) \<Rightarrow> nat \<Rightarrow> event list \<times> (js_error option + 'a)" where
  "callWithRetry fn maxRetries = callWithRetry_loop fn maxRetries 0 None []"

text \<open>\<^verbatim>\<open>response.text || dflt\<close>: a missing or empty text gives the default.\<close>

definition text_or :: "response \<Rightarrow> string \<Rightarrow> string" where
  "text_or r dflt =
     (case response_text r of None \<Rightarrow> dflt | Some t \<Rightarrow> if t = [] then dflt else t)"

text \<open>
  The two collaborators. Each wraps one request to the service in \<^verbatim>\<open>callWithRetry\<close> with
  the default of three attempts, inside \<^verbatim>\<open>try\<close>/\<^verbatim>\<open>catch\<close>; \<open>api i\<close> is the outcome of the
  request in iteration \<open>i\<close>. The prompt they build does not influence the control flow.
\<close>

definition extractGuideData :: "(nat \<Rightarrow> js_error + response) \<Rightarrow> event list \<times> string" where
  "extractGuideData api =
     (case callWithRetry api 3 of
        (tr, Inr r) \<Rightarrow> (tr, text_or r ''Guide synced.'')
      | (tr, Inl e) \<Rightarrow> (tr, ''Extraction failed.''))"

definition getAIRecommendations ::
  "(nat \<Rightarrow> js_error + response) \<Rightarrow> event list \<times> string" where
  "getAIRecommendations api =
     (case callWithRetry api 3 of
        (tr, Inr r) \<Rightarrow> (tr, text_or r ''No audit available.'')
      | (tr, Inl e) \<Rightarrow> (tr, ''Audit generation failed.''))"

text \<open>The number of attempts and the delays of a run.\<close>

definition calls :: "event list \<Rightarrow> nat" where
  "calls tr = length (filter (\<lambda>ev. ev = Call) tr)"

definition sleeps :: "event list \<Rightarrow> nat list" where
  "sleeps tr = concat (map (\<lambda>ev. case ev of Call \<Rightarrow> [] | Sleep ms \<Rightarrow> [ms]) tr)"

text \<open>The effects of a run whose first call is iteration \<open>i\<close> and whose last is \<open>k\<close>.\<close>

definition trace_upto :: "nat \<Rightarrow> nat \<Rightarrow> event list" where
  "trace_upto i k = concat (map (\<lambda>j. [Call, Sleep (2 ^ j * 1000)]) [i ..< k]) @ [Call]"

definition last_outcome :: "(js_error + 'a) \<Rightarrow> (js_error option + 'a)" where
  "last_outcome r = (case r of Inr v \<Rightarrow> Inr v | Inl e \<Rightarrow> Inl (Some e))"

text \<open>A service that answers every request with HTTP 429.\<close>

definition rate_limited :: js_error where
  "rate_limited = \<lparr> message = Some ''Request failed with status 429'', status = Some 429 \<rparr>"

definition always_rate_limited :: "nat \<Rightarrow> js_error + response" where
  "always_rate_limited k = Inl rate_limited"

text \<open>
  A service that answers the first request with HTTP 429 and the next ones with a text, and
  a service that answers every request with HTTP 500.
\<close>

definition ok_response :: response where
  "ok_response = \<lparr> response_text = Some ''ok'' \<rparr>"

definition limited_once :: "nat \<Rightarrow> js_error + response" where
  "limited_once k = (if k = 0 then Inl rate_limited else Inr ok_response)"

definition server_error :: js_error where
  "server_error = \<lparr> message = Some ''Internal error'', status = Some 500 \<rparr>"

definition always_failing :: "nat \<Rightarrow> js_error + response" where
  "always_failing k = Inl server_error"

section \<open>Momentum regime\<close>

text \<open>
  Claim C7. The regime label is a function of the momentum ratio alone, with the thresholds
  0.16 and 0.24: a ratio strictly below 0.16 is Low, strictly above 0.24 is High, anything
  between is Intermediate, and both boundary values are Intermediate.
\<close>

theorem momentumRegime_thresholds:
  "momentumRegime (calculateMixing i) = regime_of (momentumRatio (calculateMixing i))
   \<and> (r < 0.16 \<longrightarrow> regime_of (Num r) = ''Low'')
   \<and> (0.24 < r \<longrightarrow> regime_of (Num r) = ''High'')
   \<and> (0.16 \<le> r \<and> r \<le> 0.24 \<longrightarrow> regime_of (Num r) = ''Intermediate'')
   \<and> regime_of (Num 0.16) = ''Intermediate''
   \<and> regime_of (Num 0.24) = ''Intermediate''"
  by (simp add: calculateMixing_def regime_of_def js_gt_def)

theorem momentumRegime_thresholds_witness:
  "(0.1::real) < 0.16 \<and> regime_of (Num 0.1) = ''Low''
   \<and> (0.24::real) < 0.3 \<and> regime_of (Num 0.3) = ''High''
   \<and> (0.16::real) \<le> 0.2 \<and> (0.2::real) \<le> 0.24 \<and> regime_of (Num 0.2) = ''Intermediate''"
  using momentumRegime_thresholds [of scenario "0.1"]
    momentumRegime_thresholds [of scenario "0.3"]
    momentumRegime_thresholds [of scenario "0.2"]
  by simp

section \<open>Geometry\<close>

lemma floor_or_max:
  "x \<noteq> PInf \<Longrightarrow> js_max (js_or x (Num 0.001)) (Num 0.001) = Num (floored_mm x)"
  by (cases x) (auto simp: js_or_def floored_mm_def)

lemma floored_mm_ge: "0.001 \<le> floored_mm x"
  by (cases x) (auto simp: floored_mm_def)

lemma floored_mm_pos: "0 < floored_mm x"
  using floored_mm_ge [of x] by simp

lemma d_of_Num: "dimension i \<noteq> PInf \<Longrightarrow> d_of i = Num (floored_mm (dimension i))"
  unfolding d_of_def by (rule floor_or_max)

lemma h_of_Num: "depth_of i \<noteq> PInf \<Longrightarrow> h_of i = Num (floored_mm (depth_of i))"
  unfolding h_of_def by (rule floor_or_max)

lemma depth_of_floor: "floored_mm (depth_of i) = floored_depth (depth i)"
  by (cases "depth i") (simp_all add: depth_of_def floored_depth_def floored_mm_def)

lemma depth_of_PInf: "depth i \<noteq> Some PInf \<Longrightarrow> depth_of i \<noteq> PInf"
  by (cases "depth i") (simp_all add: depth_of_def)

lemma h_of_depth: "depth i \<noteq> Some PInf \<Longrightarrow> h_of i = Num (floored_depth (depth i))"
  using h_of_Num [OF depth_of_PInf] by (simp add: depth_of_floor)

lemma floored_depth_pos: "0 < floored_depth x"
  using floored_mm_pos by (cases x) (simp_all add: floored_depth_def)

lemma geometry_values:
  assumes "dimension i \<noteq> PInf" and "depth i \<noteq> Some PInf"
  shows "area_of i =
           Num (if conduitType i = PIPE \<and> conduitShape i = CIRCULAR
                then pi * (floored_mm (dimension i) / 2)\<^sup>2
                else floored_mm (dimension i) * floored_depth (depth i))"
    and "Dh_of i =
           Num (if conduitType i = PIPE
                then (if conduitShape i = CIRCULAR then floored_mm (dimension i)
                      else 2 * floored_mm (dimension i) * floored_depth (depth i)
                           / (floored_mm (dimension i) + floored_depth (depth i)))
                else 4 * (floored_mm (dimension i) * floored_depth (depth i))
                     / (floored_mm (dimension i) + 2 * floored_depth (depth i)))"
proof -
  have d: "d_of i = Num (floored_mm (dimension i))" using assms(1) by (rule d_of_Num)
  have h: "h_of i = Num (floored_depth (depth i))" using assms(2) by (rule h_of_depth)
  have dp: "0 < floored_mm (dimension i)" by (rule floored_mm_pos)
  have hp: "0 < floored_depth (depth i)" by (rule floored_depth_pos)
  have s: "floored_mm (dimension i) \<noteq> 0"
    "floored_mm (dimension i) + floored_depth (depth i) \<noteq> 0"
    "floored_mm (dimension i) + 2 * floored_depth (depth i) \<noteq> 0"
    using dp hp by simp_all
  show "area_of i =
           Num (if conduitType i = PIPE \<and> conduitShape i = CIRCULAR
                then pi * (floored_mm (dimension i) / 2)\<^sup>2
                else floored_mm (dimension i) * floored_depth (depth i))"
    using s by (simp add: area_of_def d h)
  show "Dh_of i =
           Num (if conduitType i = PIPE
                then (if conduitShape i = CIRCULAR then floored_mm (dimension i)
                      else 2 * floored_mm (dimension i) * floored_depth (depth i)
                           / (floored_mm (dimension i) + floored_depth (depth i)))
                else 4 * (floored_mm (dimension i) * floored_depth (depth i))
                     / (floored_mm (dimension i) + 2 * floored_depth (depth i)))"
    using s by (simp add: Dh_of_def area_of_def d h)
qed

text \<open>
  Claim C8. With \<open>d\<close> the field \<^verbatim>\<open>dimension\<close> and \<open>h\<close> the field \<^verbatim>\<open>depth\<close> (0.6 when
  absent), each raised to at least 0.001: a circular pipe has area \<open>\<pi> (d/2)\<^sup>2\<close> and hydraulic
  diameter \<open>d\<close>; a pipe of any other shape has area \<open>d h\<close> and hydraulic diameter
  \<open>2 d h / (d + h)\<close>; a channel of any shape has area \<open>d h\<close> and hydraulic diameter
  \<open>4 d h / (d + 2 h)\<close>. The formulas are over the reals, so neither field is Infinity.
\<close>

theorem geometry_formulas:
  assumes "dimension i \<noteq> PInf" and "depth i \<noteq> Some PInf"
  shows "(conduitType i = PIPE \<and> conduitShape i = CIRCULAR \<longrightarrow>
            wettedArea (calculateMixing i) = Num (pi * (floored_mm (dimension i) / 2)\<^sup>2)
          \<and> hydraulicDiameter (calculateMixing i) = Num (floored_mm (dimension i)))
       \<and> (conduitType i = PIPE \<and> conduitShape i \<noteq> CIRCULAR \<longrightarrow>
            wettedArea (calculateMixing i) =
              Num (floored_mm (dimension i) * floored_depth (depth i))
          \<and> hydraulicDiameter (calculateMixing i) =
              Num (2 * floored_mm (dimension i) * floored_depth (depth i)
                   / (floored_mm (dimension i) + floored_depth (depth i))))
       \<and> (conduitType i = CHANNEL \<longrightarrow>
            wettedArea (calculateMixing i) =
              Num (floored_mm (dimension i) * floored_depth (depth i))
          \<and> hydraulicDiameter (calculateMixing i) =
              Num (4 * (floored_mm (dimension i) * floored_depth (depth i))
                   / (floored_mm (dimension i) + 2 * floored_depth (depth i))))"
proof -
  have d: "d_of i = Num (floored_mm (dimension i))" using assms(1) by (rule d_of_Num)
  have h: "h_of i = Num (floored_depth (depth i))" using assms(2) by (rule h_of_depth)
  have dp: "0 < floored_mm (dimension i)" by (rule floored_mm_pos)
  have hp: "0 < floored_depth (depth i)" by (rule floored_depth_pos)
  have s1: "floored_mm (dimension i) + floored_depth (depth i) \<noteq> 0" using dp hp by simp
  have s2: "floored_mm (dimension i) + 2 * floored_depth (depth i) \<noteq> 0" using dp hp by simp
  show ?thesis
    using s1 s2 by (simp add: calculateMixing_def area_of_def Dh_of_def d h)
qed

text \<open>
  The three branches on concrete records: the circular scenario pipe of 0.8 m; the 2 m by
  1 m rectangular duct and channel; the 2 m channel with the depth absent (0.6 m is used)
  and with the depth zero (one millimetre is used).
\<close>

theorem geometry_formulas_witness:
  "dimension scenario \<noteq> PInf \<and> depth scenario \<noteq> Some PInf
   \<and> conduitType scenario = PIPE \<and> conduitShape scenario = CIRCULAR
   \<and> wettedArea (calculateMixing scenario) = Num (pi * (0.8 / 2)\<^sup>2)
   \<and> hydraulicDiameter (calculateMixing scenario) = Num 0.8
   \<and> conduitType duct_2x1 = PIPE \<and> conduitShape duct_2x1 = RECTANGULAR
   \<and> dimension duct_2x1 = Num 2 \<and> depth duct_2x1 = Some (Num 1)
   \<and> wettedArea (calculateMixing duct_2x1) = Num 2
   \<and> hydraulicDiameter (calculateMixing duct_2x1) = Num (4 / 3)
   \<and> conduitType channel_2x1 = CHANNEL
   \<and> dimension channel_2x1 = Num 2 \<and> depth channel_2x1 = Some (Num 1)
   \<and> wettedArea (calculateMixing channel_2x1) = Num 2
   \<and> hydraulicDiameter (calculateMixing channel_2x1) = Num 2
   \<and> depth channel_no_depth = None
   \<and> wettedArea (calculateMixing channel_no_depth) = Num 1.2
   \<and> hydraulicDiameter (calculateMixing channel_no_depth) = Num 1.5
   \<and> depth channel_zero_depth = Some (Num 0)
   \<and> wettedArea (calculateMixing channel_zero_depth) = Num 0.002
   \<and> hydraulicDiameter (calculateMixing channel_zero_depth) = Num (0.008 / 2.002)"
proof -
  have s: "dimension scenario \<noteq> PInf" "depth scenario \<noteq> Some PInf"
    "conduitType scenario = PIPE \<and> conduitShape scenario = CIRCULAR"
    "floored_mm (dimension scenario) = 0.8"
    by (simp_all add: scenario_def floored_mm_def)
  have p: "dimension duct_2x1 \<noteq> PInf" "depth duct_2x1 \<noteq> Some PInf"
    "conduitType duct_2x1 = PIPE \<and> conduitShape duct_2x1 = RECTANGULAR"
    "dimension duct_2x1 = Num 2 \<and> depth duct_2x1 = Some (Num 1)"
    "floored_mm (dimension duct_2x1) = 2" "floored_depth (depth duct_2x1) = 1"
    by (simp_all add: duct_2x1_def scenario_def floored_mm_def floored_depth_def)
  have c: "dimension channel_2x1 \<noteq> PInf" "depth channel_2x1 \<noteq> Some PInf"
    "conduitType channel_2x1 = CHANNEL"
    "dimension channel_2x1 = Num 2 \<and> depth channel_2x1 = Some (Num 1)"
    "floored_mm (dimension channel_2x1) = 2" "floored_depth (depth channel_2x1) = 1"
    by (simp_all add: channel_2x1_def scenario_def floored_mm_def floored_depth_def)
  have n: "dimension channel_no_depth \<noteq> PInf" "depth channel_no_depth \<noteq> Some PInf"
    "conduitType channel_no_depth = CHANNEL" "depth channel_no_depth = None"
    "floored_mm (dimension channel_no_depth) = 2" "floored_depth (depth channel_no_depth) = 0.6"
    by (simp_all add: channel_no_depth_def channel_2x1_def scenario_def floored_mm_def
        floored_depth_def)
  have z: "dimension channel_zero_depth \<noteq> PInf" "depth channel_zero_depth \<noteq> Some PInf"
    "conduitType channel_zero_depth = CHANNEL" "depth channel_zero_depth = Some (Num 0)"
    "floored_mm (dimension channel_zero_depth) = 2"
    "floored_depth (depth channel_zero_depth) = 0.001"
    by (simp_all add: channel_zero_depth_def channel_2x1_def scenario_def floored_mm_def
        floored_depth_def)
  show ?thesis
    using geometry_formulas [OF s(1,2)] geometry_formulas [OF p(1,2)]
      geometry_formulas [OF c(1,2)] geometry_formulas [OF n(1,2)]
      geometry_formulas [OF z(1,2)] s p c n z
    by (simp add: floored_depth_def floored_mm_def)
qed

section \<open>Signs of velocity and headloss\<close>

lemma is_finite_iff: "is_finite x \<longleftrightarrow> (\<exists>a. x = Num a)"
  by (cases x) (simp_all add: is_finite_def)

lemma Q_m3h_of_Num: "is_finite (flowRate i) \<Longrightarrow> \<exists>q. Q_m3h_of i = Num q \<and> 1 \<le> q"
  by (auto simp: is_finite_iff Q_m3h_of_def js_or_def)

lemma area_of_Num:
  assumes "dimension i \<noteq> PInf" and "depth_of i \<noteq> PInf"
  shows "\<exists>a. area_of i = Num a \<and> 0 < a"
  using floored_mm_pos [of "dimension i"] floored_mm_pos [of "depth_of i"]
  by (simp add: area_of_def d_of_Num [OF assms(1)] h_of_Num [OF assms(2)])

lemma Dh_of_Num:
  assumes "dimension i \<noteq> PInf" and "depth_of i \<noteq> PInf"
  shows "\<exists>a. Dh_of i = Num a \<and> 0 < a"
proof -
  have dp: "0 < floored_mm (dimension i)" by (rule floored_mm_pos)
  have hp: "0 < floored_mm (depth_of i)" by (rule floored_mm_pos)
  have s1: "floored_mm (dimension i) + floored_mm (depth_of i) \<noteq> 0" using dp hp by simp
  have s2: "floored_mm (dimension i) + 2 * floored_mm (depth_of i) \<noteq> 0" using dp hp by simp
  have s3: "0 < floored_mm (dimension i) + 2 * floored_mm (depth_of i)" using dp hp by simp
  have s4: "0 < floored_mm (dimension i) + floored_mm (depth_of i)" using dp hp by simp
  show ?thesis
    using s1 s2 s3 s4 dp hp
    by (simp add: Dh_of_def area_of_def d_of_Num [OF assms(1)] h_of_Num [OF assms(2)])
qed

lemma velocity_of_Num:
  assumes "is_finite (flowRate i)" "dimension i \<noteq> PInf" and "depth_of i \<noteq> PInf"
  shows "\<exists>v. velocity_of i = Num v \<and> 0 < v"
proof -
  obtain q where q: "Q_m3h_of i = Num q" "1 \<le> q" using Q_m3h_of_Num [OF assms(1)] by blast
  obtain a where a: "area_of i = Num a" "0 < a" using area_of_Num [OF assms(2,3)] by blast
  show ?thesis using q a by (simp add: velocity_of_def js_or_def)
qed

lemma posD: "is_finite x \<Longrightarrow> js_lt (Num 0) x \<Longrightarrow> \<exists>a. x = Num a \<and> 0 < a"
  by (cases x) (simp_all add: is_finite_def)

lemma nonnegD: "is_finite x \<Longrightarrow> js_le (Num 0) x \<Longrightarrow> \<exists>a. x = Num a \<and> 0 \<le> a"
  by (cases x) (simp_all add: is_finite_def)

lemma boundedD:
  "js_le (Num lo) x \<Longrightarrow> js_le x (Num hi) \<Longrightarrow> \<exists>a. x = Num a \<and> lo \<le> a \<and> a \<le> hi"
  by (cases x) simp_all

lemma in_range_finite: "in_range b x \<Longrightarrow> is_finite x"
  by (cases x) (simp_all add: in_range_def is_finite_def)

lemma in_range_not_PInf: "in_range b x \<Longrightarrow> x \<noteq> PInf"
  by (cases x) (simp_all add: in_range_def)

lemma depth_in_range_not_PInf: "depth_in_range b x \<Longrightarrow> x \<noteq> Some PInf"
  by (cases x) (auto simp: depth_in_range_def in_range_def)

lemma floored_mm_le: "in_range b x \<Longrightarrow> 0.001 \<le> b \<Longrightarrow> floored_mm x \<le> b"
  by (cases x) (auto simp: in_range_def floored_mm_def)

lemma floored_depth_le: "depth_in_range b x \<Longrightarrow> 0.6 \<le> b \<Longrightarrow> floored_depth x \<le> b"
proof (cases x)
  case None
  assume "0.6 \<le> b"
  then show ?thesis using None by (simp add: floored_depth_def)
next
  case (Some y)
  assume "depth_in_range b x" "0.6 \<le> b"
  then show ?thesis using Some floored_mm_le [of b y] by (simp add: depth_in_range_def floored_depth_def)
qed

lemma floored_depth_ge: "0.001 \<le> floored_depth x"
  using floored_mm_ge by (cases x) (simp_all add: floored_depth_def)

text \<open>
  The magnitudes of the geometry for a dimension and a depth between one millimetre and
  \<open>B\<close>: the area and the hydraulic diameter of each branch.
\<close>

lemma geom_real_bounds:
  fixes d h B :: real
  assumes "0.001 \<le> d" "d \<le> B" "0.001 \<le> h" "h \<le> B"
  shows "0.0000005 \<le> pi * (d / 2)\<^sup>2" "pi * (d / 2)\<^sup>2 \<le> B\<^sup>2"
    "0.0000005 \<le> d * h" "d * h \<le> B\<^sup>2"
    "0.001 \<le> 2 * d * h / (d + h)" "2 * d * h / (d + h) \<le> 4 * B"
    "0.001 \<le> 4 * (d * h) / (d + 2 * h)" "4 * (d * h) / (d + 2 * h) \<le> 4 * B"
proof -
  have d0: "0 \<le> d" "0 < d" and h0: "0 \<le> h" "0 < h" and B0: "0 \<le> B"
    using assms by simp_all
  have sq: "(0.001 / 2)\<^sup>2 \<le> (d / 2)\<^sup>2" "(d / 2)\<^sup>2 \<le> (B / 2)\<^sup>2"
    using assms(1,2) by (simp_all add: power_mono)
  have "2 * (0.001 / 2)\<^sup>2 \<le> pi * (d / 2)\<^sup>2"
    using pi_ge_two sq(1) by (intro mult_mono) simp_all
  then show "0.0000005 \<le> pi * (d / 2)\<^sup>2" by (simp add: power2_eq_square)
  have "pi * (d / 2)\<^sup>2 \<le> 4 * (B / 2)\<^sup>2"
    using pi_less_4 sq(2) by (intro mult_mono) simp_all
  then show "pi * (d / 2)\<^sup>2 \<le> B\<^sup>2" by (simp add: power2_eq_square)
  have "0.001 * 0.001 \<le> d * h" using assms(1,3) by (intro mult_mono) simp_all
  then show "0.0000005 \<le> d * h" by simp
  have dh: "d * h \<le> B * B" using assms(2,4) d0 h0 B0 by (intro mult_mono) simp_all
  then show "d * h \<le> B\<^sup>2" by (simp add: power2_eq_square)
  have a: "0.001 * d \<le> d * h" using assms(3) d0 by (simp add: mult_left_mono)
  have b: "0.001 * h \<le> d * h" using assms(1) h0 by (simp add: mult_right_mono)
  have c: "d * h \<le> B * d" using assms(4) d0 by (simp add: mult.commute mult_left_mono)
  have e: "0 \<le> B * h" "0 \<le> B * d" "0 \<le> d * h" using B0 h0 d0 by simp_all
  have t1: "2 * d * h = 2 * (d * h)" by simp
  have t2: "0.001 * (d + h) = 0.001 * d + 0.001 * h"
    "0.001 * (d + 2 * h) = 0.001 * d + 2 * (0.001 * h)"
    "4 * B * (d + h) = 4 * (B * d) + 4 * (B * h)"
    "4 * B * (d + 2 * h) = 4 * (B * d) + 8 * (B * h)"
    by (simp_all add: distrib_left)
  have "0.001 * (d + h) \<le> 2 * d * h" unfolding t1 t2 using a b by linarith
  then show "0.001 \<le> 2 * d * h / (d + h)" using d0 h0 by (simp add: pos_le_divide_eq)
  have "2 * d * h \<le> 4 * B * (d + h)" unfolding t1 t2 using c e by linarith
  then show "2 * d * h / (d + h) \<le> 4 * B" using d0 h0 by (simp add: pos_divide_le_eq)
  have "0.001 * (d + 2 * h) \<le> 4 * (d * h)" unfolding t2 using a b e(3) by linarith
  then show "0.001 \<le> 4 * (d * h) / (d + 2 * h)" using d0 h0 by (simp add: pos_le_divide_eq)
  have "4 * (d * h) \<le> 4 * B * (d + 2 * h)" unfolding t2 using c e by linarith
  then show "4 * (d * h) / (d + 2 * h) \<le> 4 * B" using d0 h0 by (simp add: pos_divide_le_eq)
qed

lemma geometry_magnitude:
  assumes "in_range range_limit (dimension i)" and "depth_in_range range_limit (depth i)"
  shows "js_le (Num 0.0000005) (area_of i)" "js_le (area_of i) (Num (range_limit\<^sup>2))"
    "js_le (Num 0.001) (Dh_of i)" "js_le (Dh_of i) (Num (4 * range_limit))"
proof -
  let ?d = "floored_mm (dimension i)" and ?h = "floored_depth (depth i)"
  note v = geometry_values [OF in_range_not_PInf [OF assms(1)]
      depth_in_range_not_PInf [OF assms(2)]]
  have r: "0.001 \<le> range_limit" "0.6 \<le> range_limit" by (simp_all add: range_limit_def)
  have b: "0.001 \<le> ?d" "?d \<le> range_limit" "0.001 \<le> ?h" "?h \<le> range_limit"
    using floored_mm_ge [of "dimension i"] floored_mm_le [OF assms(1) r(1)]
      floored_depth_ge [of "depth i"] floored_depth_le [OF assms(2) r(2)]
    by simp_all
  note g = geom_real_bounds [OF b]
  have dl: "?d \<le> 4 * range_limit" using b(1,2) by simp
  show "js_le (Num 0.0000005) (area_of i)" unfolding v using g(1,3) by simp
  show "js_le (area_of i) (Num (range_limit\<^sup>2))" unfolding v using g(2,4) by simp
  show "js_le (Num 0.001) (Dh_of i)" unfolding v using g(5,7) b(1) by simp
  show "js_le (Dh_of i) (Num (4 * range_limit))" unfolding v using g(6,8) dl by simp
qed

lemma flow_magnitude:
  "in_range range_limit (flowRate i) \<Longrightarrow>
     js_le (Num 1) (Q_m3h_of i) \<and> js_le (Q_m3h_of i) (Num range_limit)"
  by (cases "flowRate i") (auto simp: in_range_def Q_m3h_of_def js_or_def range_limit_def)

lemma velocity_magnitude:
  assumes "in_range range_limit (flowRate i)" and "in_range range_limit (dimension i)"
    and "depth_in_range range_limit (depth i)"
  shows "js_le (Num (1 / 10 ^ 28)) (velocity_of i)" "js_le (velocity_of i) (Num (10 ^ 15))"
proof -
  obtain q where q: "Q_m3h_of i = Num q" "1 \<le> q" "q \<le> range_limit"
    using flow_magnitude [OF assms(1)] boundedD by blast
  obtain a where a: "area_of i = Num a" "0.0000005 \<le> a" "a \<le> range_limit\<^sup>2"
    using geometry_magnitude(1,2) [OF assms(2,3)] boundedD by blast
  have an: "a \<noteq> 0" "0 < a" using a(2) by simp_all
  have v: "velocity_of i = Num (q / 3600 / a)"
    using an by (simp add: velocity_of_def q a js_or_def)
  have "1 / 3600 / range_limit\<^sup>2 \<le> q / 3600 / a"
    using q(2) a(3) an(2) by (intro frac_le) simp_all
  moreover have "(1::real) / 10 ^ 28 \<le> 1 / 3600 / range_limit\<^sup>2"
    by (simp add: range_limit_def)
  ultimately have lo: "1 / 10 ^ 28 \<le> q / 3600 / a" by linarith
  have "q / 3600 / a \<le> range_limit / 3600 / 0.0000005"
    using q(2,3) a(2) by (intro frac_le) simp_all
  moreover have "range_limit / 3600 / 0.0000005 \<le> (10::real) ^ 15"
    by (simp add: range_limit_def)
  ultimately have hi: "q / 3600 / a \<le> 10 ^ 15" by linarith
  show "js_le (Num (1 / 10 ^ 28)) (velocity_of i)" unfolding v using lo by simp
  show "js_le (velocity_of i) (Num (10 ^ 15))" unfolding v using hi by simp
qed

lemma switch_FD: "is_finite (FD_of i) \<and> js_lt (Num 0) (FD_of i)"
  by (cases "mixerModel i") (simp_all add: FD_of_def switch_of_def is_finite_def)

lemma switch_FD_le: "js_le (FD_of i) (Num 4.15)"
  by (cases "mixerModel i") (simp_all add: FD_of_def switch_of_def)

lemma switch_Lm:
  assumes "dimension i \<noteq> PInf" and "depth_of i \<noteq> PInf"
    and "is_finite (availableLength i)" "js_le (Num 0) (availableLength i)"
    and "is_finite (numElements i)" "js_le (Num 0) (numElements i)"
  shows "is_finite (Lm_of i) \<and> js_le (Num 0) (Lm_of i)"
proof -
  obtain a where a: "Dh_of i = Num a" "0 < a" using Dh_of_Num [OF assms(1,2)] by blast
  obtain l where l: "availableLength i = Num l" using assms(3) by (auto simp: is_finite_iff)
  obtain n where n: "numElements i = Num n" using assms(5) by (auto simp: is_finite_iff)
  show ?thesis using a l n assms(4,6)
    by (cases "mixerModel i") (simp_all add: Lm_of_def switch_of_def is_finite_def)
qed

lemma length_magnitude:
  assumes "valid_inputs i"
  shows "js_le (Num 0) (Lm_of i)" "js_le (Lm_of i) (Num (6 * range_limit\<^sup>2))"
proof -
  have w: "in_range range_limit (dimension i)" "depth_in_range range_limit (depth i)"
    "in_range range_limit (availableLength i)" "js_le (Num 0) (availableLength i)"
    "in_range range_limit (numElements i)" "js_le (Num 0) (numElements i)"
    using assms by (simp_all add: valid_inputs_def)
  obtain a where a: "Dh_of i = Num a" "0.001 \<le> a" "a \<le> 4 * range_limit"
    using geometry_magnitude(3,4) [OF w(1,2)] boundedD by blast
  obtain l where l: "availableLength i = Num l" "0 \<le> l" "l \<le> range_limit"
    using w(3,4) by (cases "availableLength i") (auto simp: in_range_def)
  obtain n where n: "numElements i = Num n" "0 \<le> n" "n \<le> range_limit"
    using w(5,6) by (cases "numElements i") (auto simp: in_range_def)
  have r: "0 \<le> range_limit" "range_limit \<le> 6 * range_limit\<^sup>2"
    by (simp_all add: range_limit_def)
  have na: "0 \<le> n * a" "0 \<le> a * n" using n(2) a(2) by simp_all
  have "n * a \<le> range_limit * (4 * range_limit)"
    using n(2,3) a(2,3) by (intro mult_mono) simp_all
  then have nb: "n * a \<le> 4 * range_limit\<^sup>2" "a * n \<le> 4 * range_limit\<^sup>2"
    by (simp_all add: power2_eq_square mult.commute)
  have r2: "0 \<le> range_limit\<^sup>2" by simp
  show "js_le (Num 0) (Lm_of i)"
    using l(2) na
    by (cases "mixerModel i") (simp_all add: Lm_of_def switch_of_def a(1) l(1) n(1))
  have "l \<le> 6 * range_limit\<^sup>2" using l(3) r(2) by linarith
  then show "js_le (Lm_of i) (Num (6 * range_limit\<^sup>2))"
    using na nb r2
    by (cases "mixerModel i") (simp_all add: Lm_of_def switch_of_def a(1) l(1) n(1))
qed

text \<open>
  Claim C6. On valid inputs the velocity is a positive number and the headloss in metres is
  a non-negative number. Both stay far inside the range of a double: the velocity between
  \<open>10 ^ -28\<close> and \<open>10 ^ 15\<close>, the headloss below \<open>10 ^ 58\<close>.
\<close>

theorem headloss_velocity_sign:
  assumes "valid_inputs i"
  shows "is_finite (velocity (calculateMixing i))
       \<and> js_lt (Num 0) (velocity (calculateMixing i))
       \<and> js_le (Num (1 / 10 ^ 28)) (velocity (calculateMixing i))
       \<and> js_le (velocity (calculateMixing i)) (Num (10 ^ 15))
       \<and> is_finite (headlossMeters (calculateMixing i))
       \<and> js_le (Num 0) (headlossMeters (calculateMixing i))
       \<and> js_le (headlossMeters (calculateMixing i)) (Num (10 ^ 58))"
proof -
  have w: "in_range range_limit (flowRate i)" "in_range range_limit (dimension i)"
    "depth_in_range range_limit (depth i)"
    using assms by (simp_all add: valid_inputs_def)
  obtain v where v: "velocity_of i = Num v" "1 / 10 ^ 28 \<le> v" "v \<le> 10 ^ 15"
    using velocity_magnitude [OF w] boundedD by blast
  obtain a where a: "Dh_of i = Num a" "0.001 \<le> a" "a \<le> 4 * range_limit"
    using geometry_magnitude(3,4) [OF w(2,3)] boundedD by blast
  obtain f where f: "FD_of i = Num f" "0 < f" using switch_FD posD by blast
  have f4: "f \<le> 4.15" using switch_FD_le [of i] by (simp add: f(1))
  obtain l where l: "Lm_of i = Num l" "0 \<le> l" "l \<le> 6 * range_limit\<^sup>2"
    using length_magnitude [OF assms] boundedD by blast
  have v0: "0 < v" using v(2) by (rule less_le_trans [rotated]) simp
  have an: "2 * 9.81 * a \<noteq> 0" "v \<noteq> 0" using a(2) v0 by simp_all
  have hl: "headlossM_of i = Num (f * l * v\<^sup>2 / (2 * 9.81 * a))"
    using an by (simp add: headlossM_of_def g_const_def v(1) a(1) f(1) l(1))
  have h0: "0 \<le> f * l * v\<^sup>2 / (2 * 9.81 * a)" using v0 a(2) f(2) l(2) by simp
  have fl: "f * l \<le> 4.15 * (6 * range_limit\<^sup>2)"
    using mult_mono [OF f4 l(3)] l(2) by simp
  have vv: "v\<^sup>2 \<le> (10 ^ 15)\<^sup>2" using v(3) v0 by (intro power_mono) simp_all
  have num: "f * l * v\<^sup>2 \<le> 4.15 * (6 * range_limit\<^sup>2) * (10 ^ 15)\<^sup>2"
    using mult_mono [OF fl vv] by simp
  have "f * l * v\<^sup>2 / (2 * 9.81 * a)
      \<le> 4.15 * (6 * range_limit\<^sup>2) * (10 ^ 15)\<^sup>2 / (2 * 9.81 * 0.001)"
    using num a(2) by (intro frac_le) simp_all
  moreover have "4.15 * (6 * range_limit\<^sup>2) * (10 ^ 15)\<^sup>2 / (2 * 9.81 * 0.001) \<le> (10::real) ^ 58"
    by (simp add: range_limit_def)
  ultimately have h1: "f * l * v\<^sup>2 / (2 * 9.81 * a) \<le> 10 ^ 58" by linarith
  show ?thesis
    using v0 v(2,3) h0 h1 by (simp add: calculateMixing_def v(1) hl is_finite_def)
qed

text \<open>
  The scenario, and a rectangular channel at the limit of the range with two Kenics
  elements.
\<close>

theorem headloss_velocity_sign_witness:
  "valid_inputs scenario
   \<and> js_lt (Num 0) (velocity (calculateMixing scenario))
   \<and> js_le (Num 0) (headlossMeters (calculateMixing scenario))
   \<and> valid_inputs (channel_2x1 \<lparr> mixerModel := KENICS_KM, numElements := Num 2,
                                   flowRate := Num range_limit \<rparr>)
   \<and> js_lt (Num 0) (velocity (calculateMixing
        (channel_2x1 \<lparr> mixerModel := KENICS_KM, numElements := Num 2,
                        flowRate := Num range_limit \<rparr>)))
   \<and> js_le (Num 0) (headlossMeters (calculateMixing
        (channel_2x1 \<lparr> mixerModel := KENICS_KM, numElements := Num 2,
                        flowRate := Num range_limit \<rparr>)))"
proof -
  have v: "valid_inputs scenario"
    by (simp add: valid_inputs_def scenario_def in_range_def depth_in_range_def range_limit_def)
  have c: "valid_inputs (channel_2x1 \<lparr> mixerModel := KENICS_KM, numElements := Num 2,
                                       flowRate := Num range_limit \<rparr>)"
    by (simp add: valid_inputs_def channel_2x1_def scenario_def in_range_def depth_in_range_def
        range_limit_def)
  show ?thesis using headloss_velocity_sign [OF v] headloss_velocity_sign [OF c] v c by simp
qed

section \<open>Injection blend\<close>

text \<open>
  Claim C9 as stated fails where the chemical's density is zero: the source replaces a zero
  (or absent) density by 1000 before weighting, so the scenario with \<^verbatim>\<open>chemicalDensity = 0\<close>
  blends to 1000 and not to \<open>(10 \<sqdot> 0 + 200 \<sqdot> 1000) / 210\<close>.
\<close>

theorem blend_zero_density_counterexample:
  "injectedDensity (calculateMixing (scenario \<lparr> chemicalDensity := Num 0 \<rparr>))
     \<noteq> Num (blend_density_spec 10 0 200)"
  by (simp add: calculateMixing_def injDensity_of_def totalInjLh_of_def scenario_def js_or_def
        waterDensity_def blend_density_spec_def)

text \<open>
  Claim C9, amended. For finite injection flows, a finite chemical density and a finite
  non-negative chemical viscosity, the injected density and viscosity are the two blending
  rules, where a zero chemical density counts as 1000 and a zero chemical viscosity as
  \<open>10\<^sup>-\<^sup>6\<close>. With a nonzero density and a positive viscosity these are the formulas of the
  claim.
\<close>

theorem blend_formulas:
  assumes "chemicalFlow i = Num cf" and "dilutionWaterFlow i = Num dw"
    and "chemicalDensity i = Num cd" and "chemicalViscosity i = Num cv" and "0 \<le> cv"
  shows "injectedDensity (calculateMixing i) =
           Num (blend_density_spec cf (if cd = 0 then 1000 else cd) dw)
       \<and> injectedViscosity (calculateMixing i) =
           Num (blend_viscosity_spec cf (if cv = 0 then 0.000001 else cv) dw)"
  using assms
  by (simp add: calculateMixing_def injDensity_of_def injVisc_of_def totalInjLh_of_def js_or_def
        waterDensity_def waterViscosity_def blend_density_spec_def blend_viscosity_spec_def)

theorem blend_formulas_witness:
  "chemicalFlow scenario = Num 10 \<and> dilutionWaterFlow scenario = Num 200
   \<and> chemicalDensity scenario = Num 1450 \<and> chemicalViscosity scenario = Num 0.015
   \<and> (0::real) \<le> 0.015
   \<and> injectedDensity (calculateMixing scenario) = Num (blend_density_spec 10 1450 200)
   \<and> injectedViscosity (calculateMixing scenario) = Num (blend_viscosity_spec 10 0.015 200)"
proof -
  have a: "chemicalFlow scenario = Num 10" "dilutionWaterFlow scenario = Num 200"
    "chemicalDensity scenario = Num 1450" "chemicalViscosity scenario = Num 0.015"
    by (simp_all add: scenario_def)
  have b: "(0::real) \<le> 0.015" by simp
  show ?thesis using blend_formulas [OF a b] a by simp
qed

section \<open>The clamp of the coefficient of variation\<close>

text \<open>
  Claim C2 at a negative injection flow. The dilution ratio is negative, its square root is
  NaN, and \<^verbatim>\<open>Math.min(1.0, Math.max(0.0001, NaN))\<close> is NaN: the clamp lets it through.
\<close>

theorem mixerCoV_negative_flow_is_NaN:
  "mixerCoV (calculateMixing (scenario \<lparr> chemicalFlow := Num (- 10), dilutionWaterFlow := Num 0 \<rparr>))
     = NaN"
  by (simp add: calculateMixing_def mixerCoV_of_def mixerCoV_raw_of_def switch_of_def alpha_of_def
        Q_m3h_of_def totalInjLh_of_def scenario_def js_or_def)

text \<open>The clamp does bound every value other than NaN.\<close>

lemma clamp_in_range:
  "x \<noteq> NaN \<Longrightarrow> js_le (Num 0.0001) (js_min (Num 1.0) (js_max (Num 0.0001) x))
     \<and> js_le (js_min (Num 1.0) (js_max (Num 0.0001) x)) (Num 1.0)"
  by (cases x) simp_all

lemma mixerCoV_in_range:
  "mixerCoV_raw_of i \<noteq> NaN \<Longrightarrow>
     js_le (Num 0.0001) (mixerCoV (calculateMixing i))
     \<and> js_le (mixerCoV (calculateMixing i)) (Num 1.0)"
  using clamp_in_range [of "mixerCoV_raw_of i"] by (simp add: calculateMixing_def mixerCoV_of_def)

section \<open>Divisors\<close>

text \<open>
  Claim C3 at a zero carrier viscosity. The Reynolds number divides by
  \<^verbatim>\<open>viscosity || 1e-6\<close>, but the viscosity ratio divides by the field itself: the quotient
  of the positive injected viscosity by zero is Infinity.
\<close>

theorem viscosityRatio_zero_viscosity_is_Infinity:
  "viscosityRatio (calculateMixing (scenario \<lparr> viscosity := Num 0 \<rparr>)) = PInf"
  by (simp add: calculateMixing_def injVisc_of_def totalInjLh_of_def scenario_def js_or_def
        waterViscosity_def)

text \<open>A divisor of the form \<^verbatim>\<open>x || e\<close> with a nonzero \<open>e\<close> is neither zero nor NaN.\<close>

lemma js_or_truthy: "e \<noteq> 0 \<Longrightarrow> truthy (js_or x (Num e))"
  by (simp add: js_or_def)

text \<open>
  So are the divisors of the velocity, the Reynolds number, the dilution ratio and the blend,
  the G-value, the decay term and the second quotient of the momentum ratio.
\<close>

lemma floored_divisors:
  "truthy (js_or (area_of i) (Num 0.000001))"
  "truthy (js_or (viscosity i) (Num 0.000001))"
  "truthy (js_or (totalInjLh_of i) (Num 1))"
  "truthy (js_or (js_mul (js_mul (viscosity i) (area_of i)) (Lm_of i)) (Num 0.000000001))"
  "truthy (js_or (decay_of i) (Num 0.1))"
  "truthy (js_or (js_mul (velocity_of i) (Dh_of i)) (Num 0.000001))"
  by (simp_all add: js_or_truthy)

section \<open>Available length\<close>

lemma sqrt_002_bounds: "0.14 < sqrt (0.02::real)" "sqrt (0.02::real) < 0.15"
proof -
  have "sqrt ((0.14::real)\<^sup>2) < sqrt 0.02" by (subst real_sqrt_less_iff) (simp add: power2_eq_square)
  then show "0.14 < sqrt (0.02::real)" by simp
  have "sqrt 0.02 < sqrt ((0.15::real)\<^sup>2)" by (subst real_sqrt_less_iff) (simp add: power2_eq_square)
  then show "sqrt (0.02::real) < 0.15" by simp
qed

lemma cov_short_pipe_0:
  "\<exists>c. mixerCoV (calculateMixing (short_pipe \<lparr> availableLength := Num 0 \<rparr>)) = Num c \<and> c < 1"
proof -
  have "1 < 15 / 2 * sqrt (0.02::real)" using sqrt_002_bounds(1) by simp
  then have "2 < 1 + 15 / 2 * sqrt (0.02::real)" by simp
  also have "\<dots> \<le> exp (15 / 2 * sqrt 0.02)" by (rule exp_ge_add_one_self)
  finally have e: "2 < exp (15 / 2 * sqrt (0.02::real))" .
  have "2 * exp (- (15 / 2 * sqrt (0.02::real))) < 1"
    using e by (simp add: exp_minus field_simps)
  then show ?thesis
    by (simp add: calculateMixing_def mixerCoV_of_def mixerCoV_raw_of_def switch_of_def alpha_of_def
        Q_m3h_of_def totalInjLh_of_def LD_of_def Dh_of_def d_of_def short_pipe_def scenario_def
        js_or_def)
qed

lemma cov_short_pipe_half:
  "mixerCoV (calculateMixing (short_pipe \<lparr> availableLength := Num 0.5 \<rparr>)) = Num 1"
proof -
  have x: "0 \<le> 15 / 4 * sqrt (0.02::real)" "15 / 4 * sqrt (0.02::real) \<le> 0.5625"
    using sqrt_002_bounds(2) by simp_all
  have "exp (15 / 4 * sqrt (0.02::real)) \<le> exp 0.5625" using x(2) by simp
  also have "\<dots> \<le> 1 + 0.5625 + 0.5625\<^sup>2" by (rule exp_bound) simp_all
  also have "\<dots> \<le> 2" by (simp add: power2_eq_square)
  finally have e: "exp (15 / 4 * sqrt (0.02::real)) \<le> 2" .
  have "1 \<le> 2 * exp (- (15 / 4 * sqrt (0.02::real)))"
    using e by (simp add: exp_minus field_simps)
  then show ?thesis
    by (simp add: calculateMixing_def mixerCoV_of_def mixerCoV_raw_of_def switch_of_def alpha_of_def
        Q_m3h_of_def totalInjLh_of_def LD_of_def Dh_of_def d_of_def short_pipe_def scenario_def
        js_or_def)
qed

text \<open>
  Claim C4 as stated fails between a zero length and a short one: \<^verbatim>\<open>availableLength || 1\<close>
  reads a length of 0 as 1 metre, so on the narrow pipe the coefficient of variation for
  a length of 0.5 m (clamped to 1) exceeds the one for a length of 0 (below 1).
\<close>

theorem length_monotone_counterexample:
  "\<not> js_le (mixerCoV (calculateMixing (short_pipe \<lparr> availableLength := Num 0.5 \<rparr>)))
            (mixerCoV (calculateMixing (short_pipe \<lparr> availableLength := Num 0 \<rparr>)))"
  using cov_short_pipe_0 cov_short_pipe_half by auto

lemma upd_len [simp]:
  "Q_m3h_of (i \<lparr> availableLength := x \<rparr>) = Q_m3h_of i"
  "totalInjLh_of (i \<lparr> availableLength := x \<rparr>) = totalInjLh_of i"
  "Dh_of (i \<lparr> availableLength := x \<rparr>) = Dh_of i"
  by (simp_all add: Q_m3h_of_def totalInjLh_of_def Dh_of_def area_of_def d_of_def h_of_def depth_of_def)

lemma upd_len_alpha [simp]: "alpha_of (i \<lparr> availableLength := x \<rparr>) = alpha_of i"
  by (simp add: alpha_of_def)

lemma alpha_magnitude:
  assumes "in_range range_limit (flowRate i)"
    and "chemicalFlow i = Num cf" and "dilutionWaterFlow i = Num dw"
    and "\<bar>cf\<bar> \<le> range_limit" and "\<bar>dw\<bar> \<le> range_limit"
    and "cf + dw = 0 \<or> 1 / range_limit \<le> cf + dw"
  shows "js_le (Num (1 / 10 ^ 10)) (alpha_of i)" "js_le (alpha_of i) (Num (10 ^ 27))"
proof -
  obtain q where q: "Q_m3h_of i = Num q" "1 \<le> q" "q \<le> range_limit"
    using flow_magnitude [OF assms(1)] boundedD by blast
  define t where "t = (if cf + dw = 0 then 1 else cf + dw)"
  have t: "1 / range_limit \<le> t" "t \<le> 2 * range_limit"
    using assms(4,5,6) by (auto simp: t_def range_limit_def)
  have tp: "0 < t" using t(1) by (simp add: range_limit_def)
  have al: "alpha_of i = Num (q * 1000 / t)"
    using assms(2,3) by (simp add: alpha_of_def totalInjLh_of_def js_or_def q(1) t_def)
  have "1 * 1000 / (2 * range_limit) \<le> q * 1000 / t"
    using q(2) t(2) tp by (intro frac_le) simp_all
  moreover have "(1::real) / 10 ^ 10 \<le> 1 * 1000 / (2 * range_limit)"
    by (simp add: range_limit_def)
  ultimately have lo: "1 / 10 ^ 10 \<le> q * 1000 / t" by linarith
  have "q * 1000 / t \<le> range_limit * 1000 / (1 / range_limit)"
    using q(2,3) t(1) by (intro frac_le) (simp_all add: range_limit_def)
  moreover have "range_limit * 1000 / (1 / range_limit) \<le> (10::real) ^ 27"
    by (simp add: range_limit_def)
  ultimately have hi: "q * 1000 / t \<le> 10 ^ 27" by linarith
  show "js_le (Num (1 / 10 ^ 10)) (alpha_of i)" unfolding al using lo by simp
  show "js_le (alpha_of i) (Num (10 ^ 27))" unfolding al using hi by simp
qed

lemma cov_none:
  assumes "mixerModel i = NONE" and "alpha_of i = Num al" and "0 \<le> al"
    and "Dh_of i = Num a" and "0 < a"
  shows "mixerCoV (calculateMixing (i \<lparr> availableLength := Num L \<rparr>)) =
           Num (min 1 (max 0.0001
             (2 * sqrt al * exp (- 0.75 * sqrt 0.02 * ((if L = 0 then 1 else L) / a)))))"
proof -
  have nn: "\<not> al < 0" using assms(3) by simp
  have ld: "LD_of (i \<lparr> availableLength := Num L \<rparr>) = Num ((if L = 0 then 1 else L) / a)"
    using assms(4,5) by (simp add: LD_of_def js_or_def)
  show ?thesis
    using assms(1) nn
    by (simp add: calculateMixing_def mixerCoV_of_def mixerCoV_raw_of_def switch_of_def assms(2) ld)
qed

lemma short_pipe_locals:
  "alpha_of short_pipe = Num 1" "Dh_of short_pipe = Num 0.1"
  by (simp_all add: alpha_of_def Q_m3h_of_def totalInjLh_of_def Dh_of_def d_of_def
      short_pipe_def scenario_def js_or_def)

lemma short_pipe_cov:
  "mixerCoV (calculateMixing (short_pipe \<lparr> availableLength := Num 0 \<rparr>))
     = Num (2 * exp (- (15 / 2 * sqrt 0.02)))"
  "mixerCoV (calculateMixing (short_pipe \<lparr> availableLength := Num 1 \<rparr>))
     = Num (2 * exp (- (15 / 2 * sqrt 0.02)))"
  "mixerCoV (calculateMixing (short_pipe \<lparr> availableLength := Num 2 \<rparr>))
     = Num (2 * exp (- (15 * sqrt 0.02)))"
  "2 * exp (- (15 * sqrt (0.02::real))) < 2 * exp (- (15 / 2 * sqrt 0.02))"
  "2 * exp (- (15 / 2 * sqrt (0.02::real))) < 1"
  "0.0001 < 2 * exp (- (15 * sqrt (0.02::real)))"
proof -
  have m: "mixerModel short_pipe = NONE" by (simp add: short_pipe_def scenario_def)
  note c = cov_none [OF m short_pipe_locals(1) _ short_pipe_locals(2)]
  have "1 < 15 / 2 * sqrt (0.02::real)" using sqrt_002_bounds(1) by simp
  then have "2 < 1 + 15 / 2 * sqrt (0.02::real)" by simp
  also have "\<dots> \<le> exp (15 / 2 * sqrt 0.02)" by (rule exp_ge_add_one_self)
  finally have e: "2 < exp (15 / 2 * sqrt (0.02::real))" .
  show u1: "2 * exp (- (15 / 2 * sqrt (0.02::real))) < 1"
    using e by (simp add: exp_minus field_simps)
  have "exp (15 / 4 * sqrt (0.02::real)) \<le> exp 0.5625" using sqrt_002_bounds(2) by simp
  also have "\<dots> \<le> 1 + 0.5625 + 0.5625\<^sup>2" by (rule exp_bound) simp_all
  also have "\<dots> \<le> 2" by (simp add: power2_eq_square)
  finally have q: "exp (15 / 4 * sqrt (0.02::real)) \<le> 2" .
  have "exp (15 * sqrt (0.02::real)) = (exp (15 / 4 * sqrt 0.02)) ^ 4"
    by (simp add: exp_of_nat_mult [symmetric])
  also have "\<dots> \<le> 2 ^ 4" using q by (intro power_mono) simp_all
  finally have f: "exp (15 * sqrt (0.02::real)) \<le> 16" by simp
  have "1 / 16 \<le> 1 / exp (15 * sqrt (0.02::real))"
    using f by (intro divide_left_mono) simp_all
  then have l2: "1 / 8 \<le> 2 * exp (- (15 * sqrt (0.02::real)))" by (simp add: exp_minus field_simps)
  then show l2': "0.0001 < 2 * exp (- (15 * sqrt (0.02::real)))" by simp
  have "15 / 2 * sqrt (0.02::real) < 15 * sqrt 0.02" by simp
  then show s: "2 * exp (- (15 * sqrt (0.02::real))) < 2 * exp (- (15 / 2 * sqrt 0.02))"
    by simp
  have l1: "0.0001 < 2 * exp (- (15 / 2 * sqrt (0.02::real)))" using l2' s by linarith
  have u2: "2 * exp (- (15 * sqrt (0.02::real))) < 1" using u1 s by linarith
  show "mixerCoV (calculateMixing (short_pipe \<lparr> availableLength := Num 0 \<rparr>))
     = Num (2 * exp (- (15 / 2 * sqrt 0.02)))"
    using c [of 0] u1 l1 by (simp add: min_def max_def)
  show "mixerCoV (calculateMixing (short_pipe \<lparr> availableLength := Num 1 \<rparr>))
     = Num (2 * exp (- (15 / 2 * sqrt 0.02)))"
    using c [of 1] u1 l1 by (simp add: min_def max_def)
  show "mixerCoV (calculateMixing (short_pipe \<lparr> availableLength := Num 2 \<rparr>))
     = Num (2 * exp (- (15 * sqrt 0.02)))"
    using c [of 2] u2 l2' by (simp add: min_def max_def)
qed

text \<open>
  Claim C4, amended. Take the mixer model NONE, a flow rate, a dimension and a depth of
  magnitude at most \<open>10 ^ 12\<close>, and injection flows of magnitude at most \<open>10 ^ 12\<close> whose
  total is zero or at least \<open>10 ^ -12\<close>. For lengths \<open>0 \<le> L1 < L2 \<le> 10 ^ 12\<close>, with \<open>L2\<close>
  at least 1 when \<open>L1\<close> is 0, the coefficient of variation for the available length \<open>L2\<close>
  is at most the one for \<open>L1\<close>, and both lie between 0.0001 and 1. On these inputs the
  dilution ratio \<^const>\<open>alpha_of\<close> lies between \<open>10 ^ -10\<close> and \<open>10 ^ 27\<close> and the length
  ratio \<^const>\<open>LD_of\<close> is positive, grows with the length and is at most \<open>10 ^ 15\<close>, so no
  intermediate value of the code leaves the range of a double.
\<close>

theorem length_monotone:
  assumes "mixerModel i = NONE"
    and "in_range range_limit (flowRate i)" and "in_range range_limit (dimension i)"
    and "depth_in_range range_limit (depth i)"
    and "chemicalFlow i = Num cf" and "dilutionWaterFlow i = Num dw"
    and "\<bar>cf\<bar> \<le> range_limit" and "\<bar>dw\<bar> \<le> range_limit"
    and "cf + dw = 0 \<or> 1 / range_limit \<le> cf + dw"
    and "0 \<le> L1" and "L1 < L2" and "L2 \<le> range_limit" and "L1 = 0 \<longrightarrow> 1 \<le> L2"
  shows "js_le (mixerCoV (calculateMixing (i \<lparr> availableLength := Num L2 \<rparr>)))
               (mixerCoV (calculateMixing (i \<lparr> availableLength := Num L1 \<rparr>)))
       \<and> js_le (Num 0.0001) (mixerCoV (calculateMixing (i \<lparr> availableLength := Num L2 \<rparr>)))
       \<and> js_le (mixerCoV (calculateMixing (i \<lparr> availableLength := Num L1 \<rparr>))) (Num 1)
       \<and> js_le (Num (1 / 10 ^ 10)) (alpha_of i) \<and> js_le (alpha_of i) (Num (10 ^ 27))
       \<and> js_lt (Num 0) (LD_of (i \<lparr> availableLength := Num L1 \<rparr>))
       \<and> js_le (LD_of (i \<lparr> availableLength := Num L1 \<rparr>))
                (LD_of (i \<lparr> availableLength := Num L2 \<rparr>))
       \<and> js_le (LD_of (i \<lparr> availableLength := Num L2 \<rparr>)) (Num (10 ^ 15))"
proof -
  obtain al where al: "alpha_of i = Num al" "1 / 10 ^ 10 \<le> al" "al \<le> 10 ^ 27"
    using alpha_magnitude [OF assms(2,5,6,7,8,9)] boundedD by blast
  have al0: "0 \<le> al" using al(2) by simp
  obtain a where a: "Dh_of i = Num a" "0.001 \<le> a" "a \<le> 4 * range_limit"
    using geometry_magnitude(3,4) [OF assms(3,4)] boundedD by blast
  have ap: "0 < a" using a(2) by simp
  define s where "s = 2 * sqrt al"
  define e1 where "e1 = (if L1 = 0 then 1 else L1)"
  define e2 where "e2 = (if L2 = 0 then 1 else L2)"
  have s0: "0 \<le> s" using al0 by (simp add: s_def)
  have e12: "e1 \<le> e2" using assms(10,11,13) by (auto simp: e1_def e2_def)
  have c0: "0 \<le> 0.75 * sqrt (0.02::real)" by simp
  have "e1 / a \<le> e2 / a" using e12 ap by (simp add: divide_right_mono)
  then have "0.75 * sqrt 0.02 * (e1 / a) \<le> 0.75 * sqrt 0.02 * (e2 / a)"
    using c0 by (rule mult_left_mono)
  then have "exp (- 0.75 * sqrt 0.02 * (e2 / a)) \<le> exp (- 0.75 * sqrt 0.02 * (e1 / a))"
    by simp
  then have "s * exp (- 0.75 * sqrt 0.02 * (e2 / a)) \<le> s * exp (- 0.75 * sqrt 0.02 * (e1 / a))"
    using s0 by (rule mult_left_mono)
  then have m: "min 1 (max 0.0001 (s * exp (- 0.75 * sqrt 0.02 * (e2 / a))))
      \<le> min 1 (max 0.0001 (s * exp (- 0.75 * sqrt 0.02 * (e1 / a))))"
    by (simp add: min_def max_def)
  have r1: "mixerCoV (calculateMixing (i \<lparr> availableLength := Num L1 \<rparr>)) =
      Num (min 1 (max 0.0001 (s * exp (- 0.75 * sqrt 0.02 * (e1 / a)))))"
    unfolding s_def e1_def by (rule cov_none [OF assms(1) al(1) al0 a(1) ap])
  have r2: "mixerCoV (calculateMixing (i \<lparr> availableLength := Num L2 \<rparr>)) =
      Num (min 1 (max 0.0001 (s * exp (- 0.75 * sqrt 0.02 * (e2 / a)))))"
    unfolding s_def e2_def by (rule cov_none [OF assms(1) al(1) al0 a(1) ap])
  have ld: "LD_of (i \<lparr> availableLength := Num L1 \<rparr>) = Num (e1 / a)"
    "LD_of (i \<lparr> availableLength := Num L2 \<rparr>) = Num (e2 / a)"
    using ap by (simp_all add: LD_of_def js_or_def a(1) e1_def e2_def)
  have e1p: "0 < e1" using assms(10) by (simp add: e1_def)
  have e2r: "e2 \<le> range_limit" using assms(12) by (simp add: e2_def range_limit_def)
  have l0: "0 < e1 / a" using e1p ap by simp
  have l1: "e1 / a \<le> e2 / a" using e12 ap by (simp add: divide_right_mono)
  have "e2 / a \<le> range_limit / 0.001"
    using e2r a(2) e1p e12 by (intro frac_le) simp_all
  then have l2: "e2 / a \<le> 10 ^ 15" by (simp add: range_limit_def)
  have cv: "js_le (mixerCoV (calculateMixing (i \<lparr> availableLength := Num L2 \<rparr>)))
               (mixerCoV (calculateMixing (i \<lparr> availableLength := Num L1 \<rparr>)))
       \<and> js_le (Num 0.0001) (mixerCoV (calculateMixing (i \<lparr> availableLength := Num L2 \<rparr>)))
       \<and> js_le (mixerCoV (calculateMixing (i \<lparr> availableLength := Num L1 \<rparr>))) (Num 1)"
    unfolding r1 r2 using m by (simp add: min_def max_def)
  have am: "js_le (Num (1 / 10 ^ 10)) (alpha_of i) \<and> js_le (alpha_of i) (Num (10 ^ 27))"
    unfolding al(1) using al(2,3) by simp
  have lm: "js_lt (Num 0) (LD_of (i \<lparr> availableLength := Num L1 \<rparr>))
       \<and> js_le (LD_of (i \<lparr> availableLength := Num L1 \<rparr>))
                (LD_of (i \<lparr> availableLength := Num L2 \<rparr>))
       \<and> js_le (LD_of (i \<lparr> availableLength := Num L2 \<rparr>)) (Num (10 ^ 15))"
    unfolding ld using l0 l1 l2 by simp
  show ?thesis using cv am lm by (intro conjI) (elim conjE, assumption)+
qed

theorem length_monotone_witness:
  "mixerModel short_pipe = NONE
   \<and> in_range range_limit (flowRate short_pipe) \<and> in_range range_limit (dimension short_pipe)
   \<and> depth_in_range range_limit (depth short_pipe)
   \<and> chemicalFlow short_pipe = Num 1000 \<and> dilutionWaterFlow short_pipe = Num 0
   \<and> \<bar>1000::real\<bar> \<le> range_limit \<and> \<bar>0::real\<bar> \<le> range_limit
   \<and> 1 / range_limit \<le> (1000::real) + 0
   \<and> (0::real) \<le> 1 \<and> (1::real) < 2 \<and> (2::real) \<le> range_limit \<and> (1::real) \<noteq> 0
   \<and> js_le (mixerCoV (calculateMixing (short_pipe \<lparr> availableLength := Num 2 \<rparr>)))
            (mixerCoV (calculateMixing (short_pipe \<lparr> availableLength := Num 1 \<rparr>)))
   \<and> js_lt (mixerCoV (calculateMixing (short_pipe \<lparr> availableLength := Num 2 \<rparr>)))
            (mixerCoV (calculateMixing (short_pipe \<lparr> availableLength := Num 1 \<rparr>)))
   \<and> js_lt (Num 0.0001) (mixerCoV (calculateMixing (short_pipe \<lparr> availableLength := Num 2 \<rparr>)))
   \<and> js_lt (mixerCoV (calculateMixing (short_pipe \<lparr> availableLength := Num 1 \<rparr>))) (Num 1)
   \<and> js_le (mixerCoV (calculateMixing (short_pipe \<lparr> availableLength := Num 2 \<rparr>)))
            (mixerCoV (calculateMixing (short_pipe \<lparr> availableLength := Num 0 \<rparr>)))"
proof -
  have a: "mixerModel short_pipe = NONE"
    "in_range range_limit (flowRate short_pipe)" "in_range range_limit (dimension short_pipe)"
    "depth_in_range range_limit (depth short_pipe)"
    "chemicalFlow short_pipe = Num 1000" "dilutionWaterFlow short_pipe = Num 0"
    by (simp_all add: short_pipe_def scenario_def in_range_def depth_in_range_def range_limit_def)
  have b: "\<bar>1000::real\<bar> \<le> range_limit" "\<bar>0::real\<bar> \<le> range_limit"
    "1 / range_limit \<le> (1000::real) + 0" "(2::real) \<le> range_limit"
    by (simp_all add: range_limit_def)
  have b3: "(1000::real) + 0 = 0 \<or> 1 / range_limit \<le> (1000::real) + 0" using b(3) by simp
  have c: "(0::real) \<le> 1" "(1::real) < 2" "(1::real) = 0 \<longrightarrow> (1::real) \<le> 2" by simp_all
  have d: "(0::real) \<le> 0" "(0::real) < 2" "(0::real) = 0 \<longrightarrow> (1::real) \<le> 2" by simp_all
  note t1 = length_monotone [OF a b(1,2) b3 c(1,2) b(4) c(3)]
  note t2 = length_monotone [OF a b(1,2) b3 d(1,2) b(4) d(3)]
  have s: "js_lt (mixerCoV (calculateMixing (short_pipe \<lparr> availableLength := Num 2 \<rparr>)))
            (mixerCoV (calculateMixing (short_pipe \<lparr> availableLength := Num 1 \<rparr>)))"
    "js_lt (Num 0.0001) (mixerCoV (calculateMixing (short_pipe \<lparr> availableLength := Num 2 \<rparr>)))"
    "js_lt (mixerCoV (calculateMixing (short_pipe \<lparr> availableLength := Num 1 \<rparr>))) (Num 1)"
    unfolding short_pipe_cov(1,2,3) using short_pipe_cov(4,5,6) by simp_all
  show ?thesis using t1 t2 a b s by simp
qed

section \<open>Degenerate input\<close>

text \<open>
  The result is a function of the seven guarded locals and of nine fields read as they are.
\<close>

lemma calculateMixing_cong:
  assumes l: "d_of a = d_of b" "h_of a = h_of b" "Q_m3h_of a = Q_m3h_of b"
      "totalInjLh_of a = totalInjLh_of b" "injDensity_of a = injDensity_of b"
      "injVisc_of a = injVisc_of b"
    and f: "conduitType a = conduitType b" "conduitShape a = conduitShape b"
      "mixerModel a = mixerModel b" "injectionType a = injectionType b"
      "numElements a = numElements b" "availableLength a = availableLength b"
      "viscosity a = viscosity b" "density a = density b"
      "tCoV_of a = tCoV_of b" "targetMixingTime a = targetMixingTime b"
  shows "calculateMixing a = calculateMixing b"
proof -
  have ar: "area_of a = area_of b" by (simp only: area_of_def l f)
  have dh: "Dh_of a = Dh_of b" by (simp only: Dh_of_def ar l f)
  have v: "velocity_of a = velocity_of b" by (simp only: velocity_of_def ar l)
  have re: "Re_of a = Re_of b" by (simp only: Re_of_def v dh f)
  have al: "alpha_of a = alpha_of b" by (simp only: alpha_of_def l)
  have ld: "LD_of a = LD_of b" by (simp only: LD_of_def dh f)
  have sw: "switch_of a = switch_of b" by (simp only: switch_of_def re al ld dh f)
  have cv: "mixerCoV_of a = mixerCoV_of b" by (simp only: mixerCoV_of_def mixerCoV_raw_of_def sw)
  have fd: "FD_of a = FD_of b" by (simp only: FD_of_def sw)
  have lm: "Lm_of a = Lm_of b" by (simp only: Lm_of_def sw)
  have hm: "headlossM_of a = headlossM_of b" by (simp only: headlossM_of_def fd lm v dh)
  have hk: "headlossKpa_of a = headlossKpa_of b" by (simp only: headlossKpa_of_def hm f)
  have gv: "gValue_of a = gValue_of b" by (simp only: gValue_of_def hk ar lm l f)
  have dc: "decay_of a = decay_of b" by (simp only: decay_of_def f)
  have tc: "tCoV_of a = tCoV_of b" by (rule f)
  have md: "mixingDistanceNeeded_of a = mixingDistanceNeeded_of b"
    by (simp only: mixingDistanceNeeded_of_def cv tc lm dc dh)
  have ui: "uInj_of a = uInj_of b" by (simp only: uInj_of_def totalInjM3s_of_def l f)
  have mr: "momentumRatio_of a = momentumRatio_of b"
    by (simp only: momentumRatio_of_def ui v dh l f)
  show ?thesis
    by (simp only: calculateMixing_def v re mr cv md hk hm gv dh ar tc l f)
qed

lemma absent_as_zero:
  "calculateMixing (i \<lparr> flowRate := NaN \<rparr>) = calculateMixing (i \<lparr> flowRate := Num 0 \<rparr>)"
  "calculateMixing (i \<lparr> dimension := NaN \<rparr>) = calculateMixing (i \<lparr> dimension := Num 0 \<rparr>)"
  "calculateMixing (i \<lparr> chemicalFlow := NaN \<rparr>) = calculateMixing (i \<lparr> chemicalFlow := Num 0 \<rparr>)"
  "calculateMixing (i \<lparr> dilutionWaterFlow := NaN \<rparr>)
     = calculateMixing (i \<lparr> dilutionWaterFlow := Num 0 \<rparr>)"
  "calculateMixing (i \<lparr> chemicalDensity := NaN \<rparr>)
     = calculateMixing (i \<lparr> chemicalDensity := Num 0 \<rparr>)"
  "calculateMixing (i \<lparr> chemicalViscosity := NaN \<rparr>)
     = calculateMixing (i \<lparr> chemicalViscosity := Num 0 \<rparr>)"
  "calculateMixing (i \<lparr> targetCoV := NaN \<rparr>) = calculateMixing (i \<lparr> targetCoV := Num 0 \<rparr>)"
  by (rule calculateMixing_cong;
      simp add: d_of_def h_of_def depth_of_def Q_m3h_of_def totalInjLh_of_def
        injDensity_of_def injVisc_of_def tCoV_of_def js_or_def)+

lemma absent_depth:
  "calculateMixing (i \<lparr> depth := None \<rparr>) = calculateMixing (i \<lparr> depth := Some (Num 0.6) \<rparr>)"
  by (rule calculateMixing_cong;
      simp add: d_of_def h_of_def depth_of_def Q_m3h_of_def totalInjLh_of_def
        injDensity_of_def injVisc_of_def tCoV_of_def js_or_def)

lemma below_floor_as_zero:
  "calculateMixing (i \<lparr> flowRate := Num (min a 1) \<rparr>) = calculateMixing (i \<lparr> flowRate := Num 0 \<rparr>)"
  "calculateMixing (i \<lparr> dimension := Num (min a 0.001) \<rparr>)
     = calculateMixing (i \<lparr> dimension := Num 0 \<rparr>)"
  "calculateMixing (i \<lparr> depth := Some (Num (min a 0.001)) \<rparr>)
     = calculateMixing (i \<lparr> depth := Some (Num 0) \<rparr>)"
  by (rule calculateMixing_cong;
      simp add: d_of_def h_of_def depth_of_def Q_m3h_of_def totalInjLh_of_def
        injDensity_of_def injVisc_of_def tCoV_of_def js_or_def min_def max_def)+

lemma degenerate_absent_same: "calculateMixing degenerate_absent = calculateMixing degenerate"
  by (rule calculateMixing_cong;
      simp add: d_of_def h_of_def depth_of_def Q_m3h_of_def totalInjLh_of_def
        injDensity_of_def injVisc_of_def tCoV_of_def js_or_def degenerate_def
        degenerate_absent_def scenario_def)

text \<open>
  The available length is guarded where the length ratio is computed
  (\<^verbatim>\<open>availableLength || 1\<close>) and not where it becomes the mixing length
  (\<^verbatim>\<open>Lm = availableLength\<close>): absent, it makes the headloss NaN, where a length of zero
  gives a headloss of zero.
\<close>

lemma absent_length_headloss:
  "headlossMeters (calculateMixing (scenario \<lparr> availableLength := NaN \<rparr>)) = NaN
   \<and> headlossMeters (calculateMixing (scenario \<lparr> availableLength := Num 0 \<rparr>)) = Num 0"
proof -
  have "Lm_of (scenario \<lparr> availableLength := NaN \<rparr>) = NaN"
    "FD_of (scenario \<lparr> availableLength := NaN \<rparr>) = Num 0.02"
    "Lm_of (scenario \<lparr> availableLength := Num 0 \<rparr>) = Num 0"
    "FD_of (scenario \<lparr> availableLength := Num 0 \<rparr>) = Num 0.02"
    by (simp_all add: Lm_of_def FD_of_def switch_of_def scenario_def)
  moreover obtain v where "velocity_of scenario = Num v" "0 < v"
    using velocity_of_Num [of scenario] by (auto simp: scenario_def is_finite_def depth_of_def)
  moreover have "velocity_of (scenario \<lparr> availableLength := x \<rparr>) = velocity_of scenario" for x
    by (simp add: velocity_of_def area_of_def d_of_def h_of_def depth_of_def)
  moreover have "Dh_of scenario = Num 0.8"
    by (simp add: Dh_of_def d_of_def scenario_def js_or_def)
  ultimately show ?thesis
    by (simp add: calculateMixing_def headlossM_of_def g_const_def)
qed

text \<open>
  Claim C5 as stated fails for the depth, which is not read as zero when it is absent: the
  destructuring default \<^verbatim>\<open>depth = 0.6\<close> gives the 2 m channel an area of 1.2, where a depth
  of zero is floored to 1 mm and gives an area of 0.002.
\<close>

theorem absent_depth_counterexample:
  "depth channel_no_depth = None \<and> depth channel_zero_depth = Some (Num 0)
   \<and> channel_no_depth \<lparr> depth := Some (Num 0) \<rparr> = channel_zero_depth
   \<and> wettedArea (calculateMixing channel_no_depth) = Num 1.2
   \<and> wettedArea (calculateMixing channel_zero_depth) = Num 0.002
   \<and> calculateMixing channel_no_depth \<noteq> calculateMixing channel_zero_depth"
proof -
  have a: "wettedArea (calculateMixing channel_no_depth) = Num 1.2"
    "wettedArea (calculateMixing channel_zero_depth) = Num 0.002"
    by (simp_all add: calculateMixing_def area_of_def d_of_def h_of_def depth_of_def js_or_def
        channel_no_depth_def channel_zero_depth_def channel_2x1_def scenario_def)
  have "wettedArea (calculateMixing channel_no_depth)
      \<noteq> wettedArea (calculateMixing channel_zero_depth)"
    unfolding a by simp
  then have "calculateMixing channel_no_depth \<noteq> calculateMixing channel_zero_depth" by auto
  then show ?thesis
    using a by (simp add: channel_no_depth_def channel_zero_depth_def)
qed

lemma is_finite_Num: "is_finite (Num a)"
  by (simp add: is_finite_def)

lemma js_sqrt_nonneg: "0 \<le> x \<Longrightarrow> js_sqrt (Num x) = Num (sqrt x)"
  by simp

lemma degenerate_fields:
  "flowRate degenerate = Num 0" "dimension degenerate = Num 0" "depth_of degenerate = Num 0.6"
  "chemicalFlow degenerate = Num 0" "dilutionWaterFlow degenerate = Num 0"
  "conduitType degenerate = PIPE" "conduitShape degenerate = CIRCULAR"
  "mixerModel degenerate = NONE" "availableLength degenerate = Num 10"
  "viscosity degenerate = Num 0.001" "density degenerate = Num 1000"
  "chemicalDensity degenerate = Num 1450" "chemicalViscosity degenerate = Num 0.015"
  "targetCoV degenerate = Num 0.05" "targetMixingTime degenerate = Num 10"
  "injectionType degenerate = SINGLE"
  by (simp_all add: degenerate_def scenario_def depth_of_def)

lemma clamp_low: "r \<le> (0.0001::real) \<Longrightarrow> min 1 (max 0.0001 r) = 0.0001"
  by (simp add: min_def max_def)

lemma degenerate_raw_small:
  "2 * sqrt 1000 * exp (- 0.75 * sqrt 0.02 * 10000) \<le> (0.0001::real)"
proof -
  have "(351::real) \<le> 1 + 350" by simp
  also have "\<dots> \<le> exp 350" by (rule exp_ge_add_one_self)
  finally have "(351::real) ^ 3 \<le> exp 350 ^ 3" by (intro power_mono) simp_all
  also have "\<dots> = exp (1050::real)" by (simp add: exp_of_nat_mult [symmetric])
  finally have e: "(640000::real) \<le> exp 1050" by simp
  define X :: real where "X = 0.75 * sqrt 0.02 * 10000"
  have "(1050::real) \<le> X" using sqrt_002_bounds(1) by (simp add: X_def)
  then have "exp (1050::real) \<le> exp X" by simp
  then have E: "640000 \<le> exp X" using e by linarith
  have "sqrt (1000::real) \<le> 32" by (rule real_le_lsqrt) simp_all
  then have s: "2 * sqrt (1000::real) \<le> 64" by simp
  have "exp (- X) = 1 / exp X" by (simp add: exp_minus inverse_eq_divide)
  then have "2 * sqrt 1000 * exp (- X) = 2 * sqrt (1000::real) / exp X" by simp
  also have "\<dots> \<le> 64 / 640000"
    using s E by (intro frac_le) simp_all
  finally have "2 * sqrt 1000 * exp (- X) \<le> 0.0001" by simp
  moreover have "- 0.75 * sqrt 0.02 * 10000 = - X" by (simp add: X_def)
  ultimately show ?thesis by (simp only:)
qed

lemma degenerate_values:
  "Dh_of degenerate = Num 0.001"
  "area_of degenerate = Num (pi * 0.0005\<^sup>2)"
  "velocity_of degenerate = Num (1 / 3600 / (pi * 0.0005\<^sup>2))"
  "totalInjLh_of degenerate = Num 0"
  "injDensity_of degenerate = Num 0"
  "injVisc_of degenerate = Num 1"
  "mixerCoV_of degenerate = Num 0.0001"
  "mixingDistanceNeeded_of degenerate = Num 10"
  "momentumRatio_of degenerate = Num 0"
  "Lm_of degenerate = Num 10"
  "FD_of degenerate = Num 0.02"
  "Q_m3h_of degenerate = Num 1"
proof -
  note f = degenerate_fields
  show q: "Q_m3h_of degenerate = Num 1" by (simp add: Q_m3h_of_def f js_or_def)
  show t: "totalInjLh_of degenerate = Num 0" by (simp add: totalInjLh_of_def f js_or_def)
  have tm: "totalInjM3s_of degenerate = Num 0" by (simp add: totalInjM3s_of_def t)
  show id: "injDensity_of degenerate = Num 0"
    by (simp add: injDensity_of_def t f js_or_def waterDensity_def)
  show iv: "injVisc_of degenerate = Num 1"
    by (simp add: injVisc_of_def t f js_or_def waterViscosity_def)
  show dh: "Dh_of degenerate = Num 0.001"
    by (simp add: Dh_of_def d_of_def f js_or_def)
  show ar: "area_of degenerate = Num (pi * 0.0005\<^sup>2)"
    by (simp add: area_of_def d_of_def f js_or_def)
  have arp: "0 < pi * (0.0005::real)\<^sup>2" by simp
  then have arn: "pi * (0.0005::real)\<^sup>2 \<noteq> 0" by simp
  show v: "velocity_of degenerate = Num (1 / 3600 / (pi * 0.0005\<^sup>2))"
    unfolding velocity_of_def q ar using arn by (simp add: js_or_def)
  show lm: "Lm_of degenerate = Num 10" by (simp add: Lm_of_def switch_of_def f)
  show "FD_of degenerate = Num 0.02" by (simp add: FD_of_def switch_of_def f)
  have al: "alpha_of degenerate = Num 1000" by (simp add: alpha_of_def q t js_or_def)
  have ld: "LD_of degenerate = Num 10000" by (simp add: LD_of_def f dh js_or_def)
  have "mixerCoV_of degenerate =
      Num (min 1 (max 0.0001 (2 * sqrt 1000 * exp (- 0.75 * sqrt 0.02 * 10000))))"
    by (simp add: mixerCoV_of_def mixerCoV_raw_of_def switch_of_def f al ld)
  then show c: "mixerCoV_of degenerate = Num 0.0001"
    by (simp only: clamp_low [OF degenerate_raw_small])
  have tc: "tCoV_of degenerate = Num 0.05" by (simp add: tCoV_of_def f js_or_def)
  show "mixingDistanceNeeded_of degenerate = Num 10"
    by (simp add: mixingDistanceNeeded_of_def c tc lm)
  have ui: "uInj_of degenerate = Num 0" by (simp add: uInj_of_def tm f)
  have vp: "0 < 1 / 3600 / (pi * (0.0005::real)\<^sup>2)" using arp by simp
  show "momentumRatio_of degenerate = Num 0"
    using vp by (simp add: momentumRatio_of_def id ui f v dh js_or_def)
qed

lemma above_floor:
  "hydraulicDiameter (calculateMixing (degenerate \<lparr> dimension := Num 2 \<rparr>)) = Num 2"
  "velocity (calculateMixing (degenerate \<lparr> flowRate := Num 7200 \<rparr>))
     = Num (2 / (pi * 0.0005\<^sup>2))"
proof -
  show "hydraulicDiameter (calculateMixing (degenerate \<lparr> dimension := Num 2 \<rparr>)) = Num 2"
    by (simp add: calculateMixing_def Dh_of_def d_of_def js_or_def degenerate_def scenario_def)
  have arn: "pi * (0.0005::real)\<^sup>2 \<noteq> 0" by simp
  have "area_of (degenerate \<lparr> flowRate := Num 7200 \<rparr>) = Num (pi * 0.0005\<^sup>2)"
    by (simp add: area_of_def d_of_def js_or_def degenerate_def scenario_def)
  moreover have "Q_m3h_of (degenerate \<lparr> flowRate := Num 7200 \<rparr>) = Num 7200"
    by (simp add: Q_m3h_of_def js_or_def)
  ultimately show "velocity (calculateMixing (degenerate \<lparr> flowRate := Num 7200 \<rparr>))
     = Num (2 / (pi * 0.0005\<^sup>2))"
    using arn by (simp add: calculateMixing_def velocity_of_def js_or_def)
qed

text \<open>
  Claim C5, amended. On every input record, an absent or not-a-number flow rate,
  dimension, chemical flow, dilution water flow, chemical density, chemical viscosity or
  target CoV (both are NaN in the arithmetic of the code) gives the same result as the value
  zero, an absent depth the same result as the depth 0.6, and a flow rate of at most 1, a
  dimension of at most 0.001 and a depth of at most 0.001 the same result as zero. On the
  degenerate record (flow rate, dimension and both injection flows zero) the zeros are
  floored: the hydraulic diameter is 1 mm, the area that of a 1 mm circle, the velocity that
  of 1 cubic metre per hour through it, the injected density 0 and viscosity 1
  (denominators floored to 1), the coefficient of variation is clamped to 0.0001, the
  mixing distance needed is the available length, the momentum ratio is 0 (regime Low),
  and every numeric field of the result is a finite number; above the floors the fields are
  used as they are (a dimension of 2 gives a hydraulic diameter of 2, a flow rate of 7200 a
  velocity of 2 cubic metres per second through the 1 mm circle). The function has no error
  branch: it returns a record on every input.
\<close>

theorem degenerate_finite:
  "calculateMixing (i \<lparr> flowRate := NaN \<rparr>) = calculateMixing (i \<lparr> flowRate := Num 0 \<rparr>)
   \<and> calculateMixing (i \<lparr> dimension := NaN \<rparr>) = calculateMixing (i \<lparr> dimension := Num 0 \<rparr>)
   \<and> calculateMixing (i \<lparr> chemicalFlow := NaN \<rparr>)
       = calculateMixing (i \<lparr> chemicalFlow := Num 0 \<rparr>)
   \<and> calculateMixing (i \<lparr> dilutionWaterFlow := NaN \<rparr>)
       = calculateMixing (i \<lparr> dilutionWaterFlow := Num 0 \<rparr>)
   \<and> calculateMixing (i \<lparr> chemicalDensity := NaN \<rparr>)
       = calculateMixing (i \<lparr> chemicalDensity := Num 0 \<rparr>)
   \<and> calculateMixing (i \<lparr> chemicalViscosity := NaN \<rparr>)
       = calculateMixing (i \<lparr> chemicalViscosity := Num 0 \<rparr>)
   \<and> calculateMixing (i \<lparr> targetCoV := NaN \<rparr>) = calculateMixing (i \<lparr> targetCoV := Num 0 \<rparr>)
   \<and> calculateMixing (i \<lparr> depth := None \<rparr>) = calculateMixing (i \<lparr> depth := Some (Num 0.6) \<rparr>)
   \<and> calculateMixing (i \<lparr> flowRate := Num (min a 1) \<rparr>)
       = calculateMixing (i \<lparr> flowRate := Num 0 \<rparr>)
   \<and> calculateMixing (i \<lparr> dimension := Num (min a 0.001) \<rparr>)
       = calculateMixing (i \<lparr> dimension := Num 0 \<rparr>)
   \<and> calculateMixing (i \<lparr> depth := Some (Num (min a 0.001)) \<rparr>)
       = calculateMixing (i \<lparr> depth := Some (Num 0) \<rparr>)
   \<and> calculateMixing degenerate_absent = calculateMixing degenerate
   \<and> all_finite (calculateMixing degenerate)
   \<and> hydraulicDiameter (calculateMixing degenerate) = Num 0.001
   \<and> wettedArea (calculateMixing degenerate) = Num (pi * 0.0005\<^sup>2)
   \<and> velocity (calculateMixing degenerate) = Num (1 / 3600 / (pi * 0.0005\<^sup>2))
   \<and> totalInjectionFlow (calculateMixing degenerate) = Num 0
   \<and> injectedDensity (calculateMixing degenerate) = Num 0
   \<and> injectedViscosity (calculateMixing degenerate) = Num 1
   \<and> mixerCoV (calculateMixing degenerate) = Num 0.0001
   \<and> mixingDistanceNeeded (calculateMixing degenerate) = Num 10
   \<and> momentumRatio (calculateMixing degenerate) = Num 0
   \<and> momentumRegime (calculateMixing degenerate) = ''Low''
   \<and> hydraulicDiameter (calculateMixing (degenerate \<lparr> dimension := Num 2 \<rparr>)) = Num 2
   \<and> velocity (calculateMixing (degenerate \<lparr> flowRate := Num 7200 \<rparr>))
       = Num (2 / (pi * 0.0005\<^sup>2))"
proof -
  note f = degenerate_fields
  note w = degenerate_values
  define v :: real where "v = 1 / 3600 / (pi * 0.0005\<^sup>2)"
  define ar :: real where "ar = pi * 0.0005\<^sup>2"
  have ar: "area_of degenerate = Num ar" "0 < ar" by (simp_all add: ar_def w(2))
  have v: "velocity_of degenerate = Num v" "0 < v" by (simp_all add: v_def w(3))
  have vn: "v \<noteq> 0" using v(2) by simp
  have arn: "ar \<noteq> 0" using ar(2) by simp
  have re: "is_finite (Re_of degenerate)"
    by (simp add: Re_of_def f v w(1) js_or_def is_finite_def)
  have hm: "headlossM_of degenerate = Num (0.02 * 10 * v\<^sup>2 / (2 * 9.81 * 0.001))"
    by (simp add: headlossM_of_def w(10,11) v w(1) g_const_def)
  obtain k where hk: "headlossKpa_of degenerate = Num k" "0 \<le> k"
  proof
    show "headlossKpa_of degenerate =
        Num (0.02 * 10 * v\<^sup>2 / (2 * 9.81 * 0.001) * 1000 * 9.81 / 1000)"
      by (simp add: headlossKpa_of_def hm f g_const_def)
    show "0 \<le> 0.02 * 10 * v\<^sup>2 / (2 * 9.81 * 0.001) * 1000 * 9.81 / 1000" by simp
  qed
  have gin: "js_div (js_mul (js_mul (headlossKpa_of degenerate) (Num 1000))
                 (js_div (Q_m3h_of degenerate) (Num 3600)))
               (js_or (js_mul (js_mul (viscosity degenerate) (area_of degenerate))
                 (Lm_of degenerate)) (Num 0.000000001))
             = Num (k * 1000 * (1 / 3600) / (0.001 * ar * 10))"
    using arn by (simp add: hk w(12) f ar w(10) js_or_def)
  have "0 \<le> k * 1000 * (1 / 3600) / (0.001 * ar * 10)" using hk(2) ar(2) by simp
  then have gv: "is_finite (gValue_of degenerate)"
    unfolding gValue_of_def gin by (simp only: js_sqrt_nonneg is_finite_def jsnum.case)
  have fin: "all_finite (calculateMixing degenerate)"
    using vn re gv
    by (simp add: all_finite_def calculateMixing_def is_finite_Num v(1) w(4,5,6,7,8,9)
        hk(1) hm w(1) ar(1) f)
  have vals: "hydraulicDiameter (calculateMixing degenerate) = Num 0.001"
    "wettedArea (calculateMixing degenerate) = Num (pi * 0.0005\<^sup>2)"
    "velocity (calculateMixing degenerate) = Num (1 / 3600 / (pi * 0.0005\<^sup>2))"
    "totalInjectionFlow (calculateMixing degenerate) = Num 0"
    "injectedDensity (calculateMixing degenerate) = Num 0"
    "injectedViscosity (calculateMixing degenerate) = Num 1"
    "mixerCoV (calculateMixing degenerate) = Num 0.0001"
    "mixingDistanceNeeded (calculateMixing degenerate) = Num 10"
    "momentumRatio (calculateMixing degenerate) = Num 0"
    "momentumRegime (calculateMixing degenerate) = ''Low''"
    by (simp_all only: calculateMixing_def CalculationResults.simps w)
       (simp add: regime_of_def)
  show ?thesis
    by (intro conjI absent_as_zero absent_depth below_floor_as_zero degenerate_absent_same
        fin vals above_floor)
qed

section \<open>Retry policy\<close>

lemma trace_upto_step: "i < k \<Longrightarrow> trace_upto i k = [Call, Sleep (2 ^ i * 1000)] @ trace_upto (Suc i) k"
  by (simp add: trace_upto_def upt_conv_Cons)

lemma loop_shape:
  "i < n \<Longrightarrow>
   \<exists>k. i \<le> k \<and> k < n
     \<and> callWithRetry_loop fn n i lastError tr = (tr @ trace_upto i k, last_outcome (fn k))
     \<and> (\<forall>j. i \<le> j \<and> j < k \<longrightarrow> (\<exists>e. fn j = Inl e \<and> isRateLimit e))
     \<and> (k < n - 1 \<longrightarrow> (\<forall>e. fn k = Inl e \<longrightarrow> \<not> isRateLimit e))"
proof (induction fn n i lastError tr rule: callWithRetry_loop.induct)
  case (1 fn n i lastError tr)
  show ?case
  proof (cases "fn i")
    case (Inr v)
    then have "callWithRetry_loop fn n i lastError tr = (tr @ trace_upto i i, last_outcome (fn i))"
      using "1.prems" by (simp add: callWithRetry_loop.simps [of fn n i] trace_upto_def last_outcome_def)
    then show ?thesis using "1.prems" Inr by (intro exI [of _ i]) auto
  next
    case (Inl e)
    show ?thesis
    proof (cases "i < n - 1 \<and> isRateLimit e")
      case False
      then have "callWithRetry_loop fn n i lastError tr = (tr @ trace_upto i i, last_outcome (fn i))"
        using "1.prems" Inl
        by (auto simp: callWithRetry_loop.simps [of fn n i] trace_upto_def last_outcome_def)
      then show ?thesis using "1.prems" Inl False by (intro exI [of _ i]) auto
    next
      case True
      then have lt: "i + 1 < n" by auto
      from "1.IH" [OF "1.prems" Inl True lt]
      obtain k where k: "i + 1 \<le> k" "k < n"
        "callWithRetry_loop fn n (i + 1) (Some e) (tr @ [Call, Sleep (2 ^ i * 1000)]) =
           ((tr @ [Call, Sleep (2 ^ i * 1000)]) @ trace_upto (i + 1) k, last_outcome (fn k))"
        "\<forall>j. i + 1 \<le> j \<and> j < k \<longrightarrow> (\<exists>e. fn j = Inl e \<and> isRateLimit e)"
        "k < n - 1 \<longrightarrow> (\<forall>e. fn k = Inl e \<longrightarrow> \<not> isRateLimit e)"
        by blast
      have ik: "i < k" using k(1) by simp
      have "callWithRetry_loop fn n i lastError tr = (tr @ trace_upto i k, last_outcome (fn k))"
        using "1.prems" Inl True k(3) trace_upto_step [OF ik]
        by (simp add: callWithRetry_loop.simps [of fn n i])
      moreover have "\<forall>j. i \<le> j \<and> j < k \<longrightarrow> (\<exists>e. fn j = Inl e \<and> isRateLimit e)"
      proof (intro allI impI)
        fix j assume "i \<le> j \<and> j < k"
        then consider "j = i" | "i + 1 \<le> j \<and> j < k" by linarith
        then show "\<exists>e. fn j = Inl e \<and> isRateLimit e"
          using Inl True k(4) by cases auto
      qed
      ultimately show ?thesis using ik k(2) k(5) by (intro exI [of _ k]) simp
    qed
  qed
qed

lemma calls_trace_upto: "i \<le> k \<Longrightarrow> calls (trace_upto i k) = k - i + 1"
  by (induction k) (auto simp: trace_upto_def calls_def Suc_diff_le)

lemma sleeps_trace_upto: "sleeps (trace_upto i k) = map (\<lambda>j. 2 ^ j * 1000) [i ..< k]"
  by (induction k) (auto simp: trace_upto_def sleeps_def)

lemma retry_shape:
  "0 < n \<Longrightarrow>
   \<exists>k < n. callWithRetry fn n = (trace_upto 0 k, last_outcome (fn k))
     \<and> (\<forall>j < k. \<exists>e. fn j = Inl e \<and> isRateLimit e)
     \<and> (k < n - 1 \<longrightarrow> (\<forall>e. fn k = Inl e \<longrightarrow> \<not> isRateLimit e))"
  using loop_shape [of 0 n fn None "[]"] unfolding callWithRetry_def by auto


lemma rate_limited_isRateLimit: "isRateLimit rate_limited"
  by (simp add: isRateLimit_def rate_limited_def)

lemma collaborator_shape:
  "\<exists>k < 3.
     callWithRetry api 3 = (trace_upto 0 k, last_outcome (api k))
     \<and> getAIRecommendations api =
       (trace_upto 0 k,
        case api k of Inl e \<Rightarrow> ''Audit generation failed.''
                    | Inr r \<Rightarrow> text_or r ''No audit available.'')
     \<and> extractGuideData api =
       (trace_upto 0 k,
        case api k of Inl e \<Rightarrow> ''Extraction failed.'' | Inr r \<Rightarrow> text_or r ''Guide synced.'')
     \<and> (\<forall>j < k. \<exists>e. api j = Inl e \<and> isRateLimit e)
     \<and> (k < 2 \<longrightarrow> (\<forall>e. api k = Inl e \<longrightarrow> \<not> isRateLimit e))"
proof -
  obtain k where k: "k < 3" "callWithRetry api 3 = (trace_upto 0 k, last_outcome (api k))"
    "\<forall>j < k. \<exists>e. api j = Inl e \<and> isRateLimit e"
    "k < 2 \<longrightarrow> (\<forall>e. api k = Inl e \<longrightarrow> \<not> isRateLimit e)"
    using retry_shape [of 3 api] by auto
  have "getAIRecommendations api =
       (trace_upto 0 k,
        case api k of Inl e \<Rightarrow> ''Audit generation failed.''
                    | Inr r \<Rightarrow> text_or r ''No audit available.'')"
    by (simp add: getAIRecommendations_def k(2) last_outcome_def split: sum.splits)
  moreover have "extractGuideData api =
       (trace_upto 0 k,
        case api k of Inl e \<Rightarrow> ''Extraction failed.'' | Inr r \<Rightarrow> text_or r ''Guide synced.'')"
    by (simp add: extractGuideData_def k(2) last_outcome_def split: sum.splits)
  ultimately show ?thesis using k by blast
qed

lemma run_always_rate_limited:
  "callWithRetry always_rate_limited 3 =
     ([Call, Sleep 1000, Call, Sleep 2000, Call], Inl (Some rate_limited))"
  using rate_limited_isRateLimit
  by (simp add: callWithRetry_def callWithRetry_loop.simps always_rate_limited_def)

lemma run_limited_once:
  "callWithRetry limited_once 3 = ([Call, Sleep 1000, Call], Inr ok_response)"
  using rate_limited_isRateLimit
  by (simp add: callWithRetry_def callWithRetry_loop.simps limited_once_def)

lemma server_error_not_isRateLimit: "\<not> isRateLimit server_error"
  by (simp add: isRateLimit_def server_error_def)

lemma run_always_failing:
  "callWithRetry always_failing 3 = ([Call], Inl (Some server_error))"
  using server_error_not_isRateLimit
  by (simp add: callWithRetry_def callWithRetry_loop.simps always_failing_def)

text \<open>
  Claim C10, amended. Each call of \<^verbatim>\<open>getAIRecommendations\<close> and of \<^verbatim>\<open>extractGuideData\<close>
  against the same service has the same effects: between one and three requests, with a
  wait of \<open>2 ^ j\<close> seconds between request \<open>j\<close> and request \<open>j + 1\<close> (counted from 0), so
  the delays are none, 1 s, or 1 s and 2 s. A further request is made only after a
  rate-limit failure, and is made after every rate-limit failure of the first two
  requests; a failure that is not a rate limit is the last request and is what the retry
  loop throws; when the last request fails, the collaborators return their fixed messages,
  and when it succeeds they return its text, or their fixed default when the text is
  missing or empty.
\<close>

theorem retry_policy:
  "fst (extractGuideData api) = fst (getAIRecommendations api)
   \<and> fst (getAIRecommendations api)
       = trace_upto 0 (calls (fst (getAIRecommendations api)) - 1)
   \<and> 1 \<le> calls (fst (getAIRecommendations api))
   \<and> calls (fst (getAIRecommendations api)) \<le> 3
   \<and> sleeps (fst (getAIRecommendations api)) =
       map (\<lambda>j. 2 ^ j * 1000) [0 ..< calls (fst (getAIRecommendations api)) - 1]
   \<and> sleeps (fst (getAIRecommendations api)) \<in> {[], [1000], [1000, 2000]}
   \<and> (\<forall>j. j + 1 < calls (fst (getAIRecommendations api)) \<longrightarrow>
         (\<exists>e. api j = Inl e \<and> isRateLimit e))
   \<and> (\<forall>k. k < 3 \<and> (\<forall>j < k. \<exists>e. api j = Inl e \<and> isRateLimit e) \<longrightarrow>
         k < calls (fst (getAIRecommendations api)))
   \<and> (\<forall>j e. j < calls (fst (getAIRecommendations api)) \<and> api j = Inl e \<and> \<not> isRateLimit e \<longrightarrow>
         calls (fst (getAIRecommendations api)) = j + 1
       \<and> snd (callWithRetry api 3) = Inl (Some e)
       \<and> snd (getAIRecommendations api) = ''Audit generation failed.''
       \<and> snd (extractGuideData api) = ''Extraction failed.'')
   \<and> (\<forall>e. api (calls (fst (getAIRecommendations api)) - 1) = Inl e \<longrightarrow>
         snd (getAIRecommendations api) = ''Audit generation failed.''
       \<and> snd (extractGuideData api) = ''Extraction failed.'')
   \<and> (\<forall>r. api (calls (fst (getAIRecommendations api)) - 1) = Inr r \<longrightarrow>
         snd (getAIRecommendations api) = text_or r ''No audit available.''
       \<and> snd (extractGuideData api) = text_or r ''Guide synced.'')"
proof -
  obtain k where k: "k < 3"
    "getAIRecommendations api =
       (trace_upto 0 k,
        case api k of Inl e \<Rightarrow> ''Audit generation failed.''
                    | Inr r \<Rightarrow> text_or r ''No audit available.'')"
    "extractGuideData api =
       (trace_upto 0 k,
        case api k of Inl e \<Rightarrow> ''Extraction failed.'' | Inr r \<Rightarrow> text_or r ''Guide synced.'')"
    "\<forall>j < k. \<exists>e. api j = Inl e \<and> isRateLimit e"
    "k < 2 \<longrightarrow> (\<forall>e. api k = Inl e \<longrightarrow> \<not> isRateLimit e)"
    and k6: "callWithRetry api 3 = (trace_upto 0 k, last_outcome (api k))"
    using collaborator_shape [of api] by blast
  let ?c = "calls (fst (getAIRecommendations api))"
  have c: "?c = k + 1" by (simp add: k(2) calls_trace_upto)
  have s: "sleeps (fst (getAIRecommendations api)) = map (\<lambda>j. 2 ^ j * 1000) [0 ..< k]"
    by (simp add: k(2) sleeps_trace_upto)
  have p0: "fst (extractGuideData api) = fst (getAIRecommendations api)"
    by (simp add: k(2,3))
  have p1: "fst (getAIRecommendations api) = trace_upto 0 (?c - 1)"
    unfolding c by (simp add: k(2))
  have p2: "1 \<le> ?c" "?c \<le> 3" using c k(1) by simp_all
  have p3: "sleeps (fst (getAIRecommendations api)) = map (\<lambda>j. 2 ^ j * 1000) [0 ..< ?c - 1]"
    unfolding c using s by simp
  have "k = 0 \<or> k = 1 \<or> k = 2" using k(1) by linarith
  then have p4: "sleeps (fst (getAIRecommendations api)) \<in> {[], [1000], [1000, 2000]}"
    using s by (auto simp: upt_rec numeral_2_eq_2)
  have p5: "\<forall>j. j + 1 < ?c \<longrightarrow> (\<exists>e. api j = Inl e \<and> isRateLimit e)"
    unfolding c using k(4) by simp
  have p6: "\<forall>m. m < 3 \<and> (\<forall>j < m. \<exists>e. api j = Inl e \<and> isRateLimit e) \<longrightarrow> m < ?c"
  proof (intro allI impI)
    fix m assume m: "m < 3 \<and> (\<forall>j < m. \<exists>e. api j = Inl e \<and> isRateLimit e)"
    have "\<not> k < m"
    proof
      assume km: "k < m"
      then obtain e where "api k = Inl e" "isRateLimit e" using m by blast
      moreover have "k < 2" using km m by linarith
      ultimately show False using k(5) by blast
    qed
    then show "m < ?c" unfolding c by simp
  qed
  have p7: "\<forall>j e. j < ?c \<and> api j = Inl e \<and> \<not> isRateLimit e \<longrightarrow>
         ?c = j + 1 \<and> snd (callWithRetry api 3) = Inl (Some e)
       \<and> snd (getAIRecommendations api) = ''Audit generation failed.''
       \<and> snd (extractGuideData api) = ''Extraction failed.''"
  proof (intro allI impI)
    fix j e assume a: "j < ?c \<and> api j = Inl e \<and> \<not> isRateLimit e"
    then have "j \<le> k" unfolding c by simp
    moreover have "\<not> j < k" using a k(4) by auto
    ultimately have "j = k" by simp
    then show "?c = j + 1 \<and> snd (callWithRetry api 3) = Inl (Some e)
       \<and> snd (getAIRecommendations api) = ''Audit generation failed.''
       \<and> snd (extractGuideData api) = ''Extraction failed.''"
      using a unfolding c by (simp add: k(2,3) k6 last_outcome_def)
  qed
  have p8: "\<forall>e. api (?c - 1) = Inl e \<longrightarrow>
         snd (getAIRecommendations api) = ''Audit generation failed.''
       \<and> snd (extractGuideData api) = ''Extraction failed.''"
    unfolding c by (simp add: k(2,3))
  have p9: "\<forall>r. api (?c - 1) = Inr r \<longrightarrow>
         snd (getAIRecommendations api) = text_or r ''No audit available.''
       \<and> snd (extractGuideData api) = text_or r ''Guide synced.''"
    unfolding c by (simp add: k(2,3))
  show ?thesis using p0 p1 p2 p3 p4 p5 p6 p7 p8 p9 by blast
qed

theorem retry_policy_witness:
  "fst (getAIRecommendations always_rate_limited) = [Call, Sleep 1000, Call, Sleep 2000, Call]
   \<and> fst (extractGuideData always_rate_limited) = [Call, Sleep 1000, Call, Sleep 2000, Call]
   \<and> calls (fst (getAIRecommendations always_rate_limited)) = 3
   \<and> sleeps (fst (getAIRecommendations always_rate_limited)) = [1000, 2000]
   \<and> snd (getAIRecommendations always_rate_limited) = ''Audit generation failed.''
   \<and> snd (extractGuideData always_rate_limited) = ''Extraction failed.''
   \<and> fst (getAIRecommendations limited_once) = [Call, Sleep 1000, Call]
   \<and> fst (extractGuideData limited_once) = [Call, Sleep 1000, Call]
   \<and> calls (fst (getAIRecommendations limited_once)) = 2
   \<and> sleeps (fst (getAIRecommendations limited_once)) = [1000]
   \<and> snd (getAIRecommendations limited_once) = ''ok''
   \<and> snd (extractGuideData limited_once) = ''ok''
   \<and> fst (getAIRecommendations always_failing) = [Call]
   \<and> fst (extractGuideData always_failing) = [Call]
   \<and> calls (fst (getAIRecommendations always_failing)) = 1
   \<and> sleeps (fst (getAIRecommendations always_failing)) = []
   \<and> snd (getAIRecommendations always_failing) = ''Audit generation failed.''
   \<and> snd (extractGuideData always_failing) = ''Extraction failed.''"
proof -
  have ev: "getAIRecommendations always_rate_limited =
        ([Call, Sleep 1000, Call, Sleep 2000, Call], ''Audit generation failed.'')"
    "extractGuideData always_rate_limited =
        ([Call, Sleep 1000, Call, Sleep 2000, Call], ''Extraction failed.'')"
    "getAIRecommendations limited_once = ([Call, Sleep 1000, Call], ''ok'')"
    "extractGuideData limited_once = ([Call, Sleep 1000, Call], ''ok'')"
    "getAIRecommendations always_failing = ([Call], ''Audit generation failed.'')"
    "extractGuideData always_failing = ([Call], ''Extraction failed.'')"
    by (simp_all add: getAIRecommendations_def extractGuideData_def run_always_rate_limited
        run_limited_once run_always_failing text_or_def ok_response_def)
  have a: "always_rate_limited 2 = Inl rate_limited" "limited_once 1 = Inr ok_response"
    "always_failing 0 = Inl server_error" "text_or ok_response ''No audit available.'' = ''ok''"
    "text_or ok_response ''Guide synced.'' = ''ok''"
    by (simp_all add: always_rate_limited_def limited_once_def always_failing_def text_or_def
        ok_response_def)
  have c: "calls [Call, Sleep 1000, Call, Sleep 2000, Call] = 3"
    "calls [Call, Sleep 1000, Call] = 2" "calls [Call] = 1"
    by (simp_all add: calls_def)
  note r1 = retry_policy [of always_rate_limited, unfolded ev fst_conv snd_conv c]
  note r2 = retry_policy [of limited_once, unfolded ev fst_conv snd_conv c]
  note r3 = retry_policy [of always_failing, unfolded ev fst_conv snd_conv c]
  note sl = conjunct2 [THEN conjunct2, THEN conjunct2, THEN conjunct2, THEN conjunct1]
  have s1: "sleeps [Call, Sleep 1000, Call, Sleep 2000, Call] = [1000, 2000]"
    unfolding r1 [THEN sl] by (simp add: upt_rec numeral_2_eq_2 numeral_3_eq_3)
  have s2: "sleeps [Call, Sleep 1000, Call] = [1000]"
    unfolding r2 [THEN sl] by (simp add: upt_rec)
  have s3: "sleeps [Call] = []"
    unfolding r3 [THEN sl] by simp
  show ?thesis unfolding ev fst_conv snd_conv c s1 s2 s3 by simp
qed

text \<open>
  Claim C10 as stated names the delays 1 s, 2 s and 4 s. With three attempts there are two
  waits at most: against a service that always answers 429 both collaborators wait 1 s and
  2 s, and the third failure ends the run without a wait.
\<close>

theorem no_four_second_delay:
  "sleeps (fst (getAIRecommendations always_rate_limited)) = [1000, 2000]
   \<and> sleeps (fst (extractGuideData always_rate_limited)) = [1000, 2000]
   \<and> sleeps (fst (getAIRecommendations always_rate_limited)) \<noteq> [1000, 2000, 4000]
   \<and> sleeps (fst (extractGuideData always_rate_limited)) \<noteq> [1000, 2000, 4000]"
  by (simp add: getAIRecommendations_def extractGuideData_def run_always_rate_limited sleeps_def)

section \<open>Bounds on \<open>\<pi>\<close>, the exponential and the logarithm\<close>

lemma cos_taylor_bound:
  "\<bar>cos x - (\<Sum>m<n. cos_coeff m * x ^ m)\<bar> \<le> \<bar>x\<bar> ^ n / fact n" for x :: real
proof -
  obtain t where "cos x = (\<Sum>m<n. cos_coeff m * x ^ m) + (cos (t + 1/2 * real n * pi) / fact n) * x ^ n"
    using Maclaurin_cos_expansion [of x n] by blast
  then have "\<bar>cos x - (\<Sum>m<n. cos_coeff m * x ^ m)\<bar> = \<bar>cos (t + 1/2 * real n * pi)\<bar> * (\<bar>x\<bar> ^ n / fact n)"
    by (simp add: abs_mult power_abs)
  also have "\<dots> \<le> 1 * (\<bar>x\<bar> ^ n / fact n)"
    by (rule mult_right_mono) simp_all
  finally show ?thesis by simp
qed

lemma cos_poly_16:
  "(\<Sum>m<16. cos_coeff m * x ^ m) =
     1 - x^2 / 2 + x^4 / 24 - x^6 / 720 + x^8 / 40320 - x^10 / 3628800
       + x^12 / 479001600 - x^14 / 87178291200" for x :: real
  by (simp add: lessThan_nat_numeral cos_coeff_def fact_numeral)


lemma pi_half_gt: "0 \<le> x \<Longrightarrow> x \<le> 2 \<Longrightarrow> 0 < cos x \<Longrightarrow> x < pi / 2" for x :: real
proof (rule ccontr)
  assume a: "0 \<le> x" "x \<le> 2" "0 < cos x" and n: "\<not> x < pi / 2"
  have "cos x \<le> cos (pi / 2)"
    using n a(2) pi_ge_two by (intro cos_monotone_0_pi_le) simp_all
  then show False using a(3) by simp
qed

lemma pi_half_lt: "0 \<le> x \<Longrightarrow> cos x < 0 \<Longrightarrow> pi / 2 < x" for x :: real
proof (rule ccontr)
  assume a: "0 \<le> x" "cos x < 0" and n: "\<not> pi / 2 < x"
  have "0 \<le> cos x" using a(1) n by (intro cos_ge_zero) simp_all
  then show False using a(2) by simp
qed

lemma fact_16: "fact 16 = (20922789888000::real)"
  by (simp add: fact_numeral)

lemma cos_horner_16:
  fixes x :: real
  defines "y \<equiv> x\<^sup>2"
  shows "1 - y / 2 * (1 - y / 12 * (1 - y / 30 * (1 - y / 56 * (1 - y / 90 *
           (1 - y / 132 * (1 - y / 182 * (1 + y / 240))))))) \<le> cos x"
    and "cos x \<le> 1 - y / 2 * (1 - y / 12 * (1 - y / 30 * (1 - y / 56 * (1 - y / 90 *
           (1 - y / 132 * (1 - y / 182 * (1 - y / 240)))))))"
proof -
  have p: "x ^ 4 = y ^ 2" "x ^ 6 = y ^ 3" "x ^ 8 = y ^ 4" "x ^ 10 = y ^ 5" "x ^ 12 = y ^ 6"
    "x ^ 14 = y ^ 7" "\<bar>x\<bar> ^ 16 = y ^ 8"
    unfolding y_def by (simp_all add: power_mult [symmetric] power_even_abs)
  have b: "\<bar>cos x - (1 - y / 2 + y ^ 2 / 24 - y ^ 3 / 720 + y ^ 4 / 40320 - y ^ 5 / 3628800
       + y ^ 6 / 479001600 - y ^ 7 / 87178291200)\<bar> \<le> y ^ 8 / 20922789888000"
    using cos_taylor_bound [of x 16] unfolding cos_poly_16 fact_16 p y_def .
  have h1: "1 - y / 2 * (1 - y / 12 * (1 - y / 30 * (1 - y / 56 * (1 - y / 90 *
           (1 - y / 132 * (1 - y / 182 * (1 + y / 240))))))) =
        (1 - y / 2 + y ^ 2 / 24 - y ^ 3 / 720 + y ^ 4 / 40320 - y ^ 5 / 3628800
       + y ^ 6 / 479001600 - y ^ 7 / 87178291200) - y ^ 8 / 20922789888000"
    by (simp add: algebra_simps power_numeral_reduce)
  have h2: "1 - y / 2 * (1 - y / 12 * (1 - y / 30 * (1 - y / 56 * (1 - y / 90 *
           (1 - y / 132 * (1 - y / 182 * (1 - y / 240))))))) =
        (1 - y / 2 + y ^ 2 / 24 - y ^ 3 / 720 + y ^ 4 / 40320 - y ^ 5 / 3628800
       + y ^ 6 / 479001600 - y ^ 7 / 87178291200) + y ^ 8 / 20922789888000"
    by (simp add: algebra_simps power_numeral_reduce)
  show "1 - y / 2 * (1 - y / 12 * (1 - y / 30 * (1 - y / 56 * (1 - y / 90 *
           (1 - y / 132 * (1 - y / 182 * (1 + y / 240))))))) \<le> cos x"
    unfolding h1 using b by linarith
  show "cos x \<le> 1 - y / 2 * (1 - y / 12 * (1 - y / 30 * (1 - y / 56 * (1 - y / 90 *
           (1 - y / 132 * (1 - y / 182 * (1 - y / 240)))))))"
    unfolding h2 using b by linarith
qed

lemma pi_bounds: "3.1415926 < pi" "pi < 3.1415927"
proof -
  have "0 < cos (1.5707963::real)"
    by (rule less_le_trans [OF _ cos_horner_16(1)]) (simp add: power2_eq_square)
  then have "(1.5707963::real) < pi / 2" by (intro pi_half_gt) simp_all
  then show "3.1415926 < pi" by simp
  have "cos (1.57079635::real) < 0"
    by (rule le_less_trans [OF cos_horner_16(2)]) (simp add: power2_eq_square)
  then have "pi / 2 < (1.57079635::real)" by (intro pi_half_lt) simp_all
  then show "pi < 3.1415927" by simp
qed

lemma exp_taylor_lower: "even n \<Longrightarrow> (\<Sum>m<n. x ^ m / fact m) \<le> exp x" for x :: real
proof -
  assume n: "even n"
  obtain t where "exp x = (\<Sum>m<n. x ^ m / fact m) + (exp t / fact n) * x ^ n"
    using Maclaurin_exp_le [of x n] by blast
  moreover have "0 \<le> (exp t / fact n) * x ^ n"
    using n by (intro mult_nonneg_nonneg zero_le_even_power) simp_all
  ultimately show ?thesis by linarith
qed

lemma exp_horner_16:
  "1 + x * (1 + x / 2 * (1 + x / 3 * (1 + x / 4 * (1 + x / 5 * (1 + x / 6 * (1 + x / 7 *
     (1 + x / 8 * (1 + x / 9 * (1 + x / 10 * (1 + x / 11 * (1 + x / 12 * (1 + x / 13 *
     (1 + x / 14 * (1 + x / 15)))))))))))))) \<le> exp x" for x :: real
proof -
  have "(\<Sum>m<16. x ^ m / fact m) =
     1 + x * (1 + x / 2 * (1 + x / 3 * (1 + x / 4 * (1 + x / 5 * (1 + x / 6 * (1 + x / 7 *
     (1 + x / 8 * (1 + x / 9 * (1 + x / 10 * (1 + x / 11 * (1 + x / 12 * (1 + x / 13 *
     (1 + x / 14 * (1 + x / 15))))))))))))))"
    by (simp add: lessThan_nat_numeral fact_numeral algebra_simps power_numeral_reduce)
  then show ?thesis using exp_taylor_lower [of 16 x] by simp
qed

lemma ln_20_bounds: "2.9945 < ln (20::real)" "ln (20::real) < 2.997"
proof -
  have "(1/20::real) < exp (- 2.9945)"
    by (rule less_le_trans [OF _ exp_horner_16]) simp
  then have "exp (2.9945::real) < 20" by (simp add: exp_minus field_simps)
  then have "exp (2.9945::real) < exp (ln 20)" by simp
  then show "2.9945 < ln (20::real)" by (simp only: exp_less_cancel_iff)
  have "(20::real) < exp 2.997"
    by (rule less_le_trans [OF _ exp_horner_16]) simp
  then have "exp (ln 20) < exp (2.997::real)" by simp
  then show "ln (20::real) < 2.997" by (simp only: exp_less_cancel_iff)
qed

lemma sqrt_002_fine: "0.14142 < sqrt (0.02::real)" "sqrt (0.02::real) < 0.14143"
  by (rule real_less_rsqrt, simp add: power2_eq_square)
     (rule real_less_lsqrt, simp_all add: power2_eq_square)

section \<open>The end-to-end scenario\<close>

lemma scenario_fields:
  "conduitType scenario = PIPE" "conduitShape scenario = CIRCULAR" "mixerModel scenario = NONE"
  "flowRate scenario = Num 1500" "dimension scenario = Num 0.8" "depth_of scenario = Num 0.6"
  "availableLength scenario = Num 10" "viscosity scenario = Num 0.001"
  "density scenario = Num 1000" "chemicalFlow scenario = Num 10"
  "chemicalDensity scenario = Num 1450" "chemicalViscosity scenario = Num 0.015"
  "dilutionWaterFlow scenario = Num 200" "targetCoV scenario = Num 0.05"
  "targetMixingTime scenario = Num 10" "injectionType scenario = SINGLE"
  by (simp_all add: scenario_def depth_of_def)

lemma scenario_geometry:
  "Q_m3h_of scenario = Num 1500" "totalInjLh_of scenario = Num 210"
  "area_of scenario = Num (pi * 0.16)" "Dh_of scenario = Num 0.8"
  by (simp_all add: Q_m3h_of_def totalInjLh_of_def area_of_def Dh_of_def d_of_def
      scenario_fields js_or_def power2_eq_square)

lemma scenario_velocity: "velocity_of scenario = Num (125 / (48 * pi))"
  by (simp add: velocity_of_def scenario_geometry js_or_def)

lemma scenario_velocity_bounds: "0.8289319 < 125 / (48 * pi)" "125 / (48 * pi) < 0.8289321"
  using pi_bounds by (simp_all add: field_simps)

lemma scenario_Re: "Re_of scenario = Num (800000 * (125 / (48 * pi)))"
  by (simp add: Re_of_def scenario_velocity scenario_geometry scenario_fields js_or_def)

lemma scenario_injDensity: "injDensity_of scenario = Num (7150 / 7)"
  by (simp add: injDensity_of_def scenario_geometry scenario_fields js_or_def waterDensity_def)

lemma scenario_injVisc:
  "injVisc_of scenario = Num (exp ((10 * ln 0.015 + 200 * ln 0.001) / 210))"
  by (simp add: injVisc_of_def scenario_geometry scenario_fields js_or_def waterViscosity_def)

lemma scenario_injVisc_bounds:
  "0.001137 < exp ((10 * ln 0.015 + 200 * ln 0.001) / 210 :: real)"
  "exp ((10 * ln 0.015 + 200 * ln 0.001) / 210 :: real) < 0.001138"
proof -
  have a: "ln (0.015::real) = ln 15 + ln 0.001" using ln_mult [of "15::real" "0.001"] by simp
  have b: "ln (0.001137::real) = ln 1.137 + ln 0.001"
    using ln_mult [of "1.137::real" "0.001"] by simp
  have c: "ln (0.001138::real) = ln 1.138 + ln 0.001"
    using ln_mult [of "1.138::real" "0.001"] by simp
  have "(1.137::real) ^ 21 < 15" by (simp add: power_divide)
  then have "ln ((1.137::real) ^ 21) < ln 15" by (subst ln_less_cancel_iff) simp_all
  then have "21 * ln (1.137::real) < ln 15" by (simp add: ln_realpow)
  then have "ln (0.001137::real) < (10 * ln 0.015 + 200 * ln 0.001) / 210"
    unfolding a b by simp
  then have "exp (ln (0.001137::real)) < exp ((10 * ln 0.015 + 200 * ln 0.001) / 210)"
    by (simp only: exp_less_cancel_iff)
  then show "0.001137 < exp ((10 * ln 0.015 + 200 * ln 0.001) / 210 :: real)" by simp
  have "15 < (1.138::real) ^ 21" by (simp add: power_divide)
  then have "ln 15 < ln ((1.138::real) ^ 21)" by (subst ln_less_cancel_iff) simp_all
  then have "ln 15 < 21 * ln (1.138::real)" by (simp add: ln_realpow)
  then have "(10 * ln 0.015 + 200 * ln 0.001) / 210 < ln (0.001138::real)"
    unfolding a c by simp
  then have "exp ((10 * ln 0.015 + 200 * ln 0.001) / 210) < exp (ln (0.001138::real))"
    by (simp only: exp_less_cancel_iff)
  then show "exp ((10 * ln 0.015 + 200 * ln 0.001) / 210 :: real) < 0.001138" by simp
qed

lemma scenario_switch:
  "FD_of scenario = Num 0.02" "Lm_of scenario = Num 10"
  by (simp_all add: FD_of_def Lm_of_def switch_of_def scenario_fields)

lemma scenario_raw_ge_1:
  "1 \<le> 2 * sqrt (50000 / 7) * exp (- 0.75 * sqrt 0.02 * 12.5 :: real)"
proof -
  have s: "84 < sqrt (50000 / 7 :: real)"
    by (rule real_less_rsqrt) (simp add: power2_eq_square)
  have "(0.006::real) < exp (- 1.40625)"
    by (rule less_le_trans [OF _ exp_horner_16]) simp
  also have "\<dots> \<le> exp (- 0.75 * sqrt 0.02 * 12.5)"
    using sqrt_002_bounds(2) by simp
  finally have e: "0.006 < exp (- 0.75 * sqrt 0.02 * 12.5 :: real)" .
  have "1 \<le> 2 * 84 * (0.006::real)" by simp
  also have "\<dots> \<le> 2 * sqrt (50000 / 7) * exp (- 0.75 * sqrt 0.02 * 12.5)"
    using s e by (intro mult_mono) simp_all
  finally show ?thesis .
qed

lemma scenario_mixerCoV: "mixerCoV_of scenario = Num 1"
proof -
  have al: "alpha_of scenario = Num (50000 / 7)"
    by (simp add: alpha_of_def scenario_geometry js_or_def)
  have ld: "LD_of scenario = Num 12.5"
    by (simp add: LD_of_def scenario_geometry scenario_fields js_or_def)
  have "mixerCoV_raw_of scenario = Num (2 * sqrt (50000 / 7) * exp (- 0.75 * sqrt 0.02 * 12.5))"
    by (simp add: mixerCoV_raw_of_def switch_of_def scenario_fields al ld)
  then show ?thesis using scenario_raw_ge_1 by (simp add: mixerCoV_of_def)
qed

lemma scenario_headlossM:
  "headlossM_of scenario = Num (0.2 * (125 / (48 * pi))\<^sup>2 / 15.696)"
  by (simp add: headlossM_of_def scenario_switch scenario_velocity scenario_geometry g_const_def)

lemma scenario_headlossKpa:
  "headlossKpa_of scenario = Num (0.2 * (125 / (48 * pi))\<^sup>2 / 15.696 * 9.81)"
  by (simp add: headlossKpa_of_def scenario_headlossM scenario_fields g_const_def)

lemma scenario_headloss_bounds:
  "0.008755 < 0.2 * (125 / (48 * pi))\<^sup>2 / 15.696"
  "0.2 * (125 / (48 * pi))\<^sup>2 / 15.696 < 0.008756"
  "0.08589 < 0.2 * (125 / (48 * pi))\<^sup>2 / 15.696 * 9.81"
  "0.2 * (125 / (48 * pi))\<^sup>2 / 15.696 * 9.81 < 0.08590"
proof -
  let ?v = "125 / (48 * pi)"
  have lo: "0.8289319\<^sup>2 < ?v\<^sup>2"
    using scenario_velocity_bounds(1) by (intro power_strict_mono) simp_all
  have hi: "?v\<^sup>2 < 0.8289321\<^sup>2"
    using scenario_velocity_bounds by (intro power_strict_mono) simp_all
  have l: "(0.687128::real) < 0.8289319\<^sup>2" and h: "(0.8289321::real)\<^sup>2 < 0.6871285"
    by (simp_all add: power2_eq_square)
  have b: "0.687128 < ?v\<^sup>2" "?v\<^sup>2 < 0.6871285" using lo hi l h by linarith+
  show "0.008755 < 0.2 * ?v\<^sup>2 / 15.696" using b by simp
  show "0.2 * ?v\<^sup>2 / 15.696 < 0.008756" using b by simp
  show "0.08589 < 0.2 * ?v\<^sup>2 / 15.696 * 9.81" using b by simp
  show "0.2 * ?v\<^sup>2 / 15.696 * 9.81 < 0.08590" using b by simp
qed

lemma scenario_distance:
  "mixingDistanceNeeded_of scenario = Num (10 + ln 20 / (0.75 * sqrt 0.02) * 0.8)"
proof -
  have dc: "decay_of scenario = Num (0.75 * sqrt 0.02)" by (simp add: decay_of_def scenario_fields)
  have tc: "tCoV_of scenario = Num 0.05" by (simp add: tCoV_of_def scenario_fields js_or_def)
  show ?thesis
    by (simp add: mixingDistanceNeeded_of_def scenario_mixerCoV tc dc scenario_switch
        scenario_geometry js_or_def)
qed

lemma scenario_distance_bounds:
  "32.58 < 10 + ln 20 / (0.75 * sqrt 0.02) * 0.8"
  "10 + ln 20 / (0.75 * sqrt 0.02) * 0.8 < (32.61::real)"
proof -
  have s: "0 < sqrt (0.02::real)" by simp
  have "22.58 * (0.75 * sqrt 0.02) < 22.58 * (0.75 * 0.14143::real)"
    using sqrt_002_fine(2) by simp
  also have "\<dots> < 2.9945 * 0.8" by simp
  also have "\<dots> < ln 20 * 0.8" using ln_20_bounds(1) by simp
  finally have "22.58 < ln 20 * 0.8 / (0.75 * sqrt 0.02)"
    using s by (simp add: field_simps)
  then show "32.58 < 10 + ln 20 / (0.75 * sqrt 0.02) * 0.8" by simp
  have "ln 20 * 0.8 < 2.997 * (0.8::real)" using ln_20_bounds(2) by simp
  also have "\<dots> < 22.61 * (0.75 * 0.14142)" by simp
  also have "\<dots> < 22.61 * (0.75 * sqrt 0.02)" using sqrt_002_fine(1) by simp
  finally have "ln 20 * 0.8 / (0.75 * sqrt 0.02) < 22.61"
    using s by (simp add: field_simps)
  then show "10 + ln 20 / (0.75 * sqrt 0.02) * 0.8 < (32.61::real)" by simp
qed

lemma scenario_time_bounds:
  "39.30 < (10 + ln 20 / (0.75 * sqrt 0.02) * 0.8) / (125 / (48 * pi))"
  "(10 + ln 20 / (0.75 * sqrt 0.02) * 0.8) / (125 / (48 * pi)) < 39.34"
proof -
  let ?v = "125 / (48 * pi)" and ?m = "10 + ln 20 / (0.75 * sqrt 0.02) * 0.8 :: real"
  have v: "0 < ?v" by simp
  have "39.30 * ?v < 39.30 * 0.8289321" using scenario_velocity_bounds(2) by simp
  also have "\<dots> < 32.58" by simp
  also have "\<dots> < ?m" by (rule scenario_distance_bounds)
  finally show "39.30 < ?m / ?v" using v by (simp only: pos_less_divide_eq)
  have "?m < 32.61" by (rule scenario_distance_bounds)
  also have "\<dots> < 39.34 * (0.8289319::real)" by simp
  also have "\<dots> < 39.34 * ?v" using scenario_velocity_bounds(1) by simp
  finally show "?m / ?v < 39.34" using v by (simp only: pos_divide_less_eq)
qed

lemma js_div_Num: "b \<noteq> 0 \<Longrightarrow> js_div (Num a) (Num b) = Num (a / b)"
  by simp

lemma js_or_Num: "a \<noteq> 0 \<Longrightarrow> js_or (Num a) y = Num a"
  by (simp add: js_or_def)

lemma scenario_momentum:
  "momentumRatio_of scenario = Num (sqrt (7150 / 7 / 1000) * 0.00448)"
proof -
  have u: "uInj_of scenario = Num (210 / 3600000 / (pi * 0.0125\<^sup>2))"
    by (simp add: uInj_of_def totalInjM3s_of_def scenario_geometry scenario_fields)
  have q: "js_sqrt (js_div (injDensity_of scenario) (density scenario))
      = Num (sqrt (7150 / 7 / 1000))"
    by (simp add: scenario_injDensity scenario_fields)
  have n: "125 / (48 * pi) * 0.8 \<noteq> 0" by simp
  have r: "js_div (js_mul (uInj_of scenario) (Num 0.025))
             (js_or (js_mul (velocity_of scenario) (Dh_of scenario)) (Num 0.000001))
      = Num (210 / 3600000 / (pi * 0.0125\<^sup>2) * 0.025 / (125 / (48 * pi) * 0.8))"
    unfolding u scenario_velocity scenario_geometry js_mul.simps js_or_Num [OF n]
    by (rule js_div_Num [OF n])
  have e: "210 / 3600000 / (pi * 0.0125\<^sup>2) * 0.025 / (125 / (48 * pi) * 0.8) = (0.00448::real)"
    by (simp add: field_simps power2_eq_square)
  show ?thesis unfolding momentumRatio_of_def q r e by simp
qed

lemma scenario_momentum_bounds:
  "0.004527 < sqrt (7150 / 7 / 1000) * (0.00448::real)"
  "sqrt (7150 / 7 / 1000) * (0.00448::real) < 0.004528"
proof -
  have "1.0106 < sqrt (7150 / 7 / 1000 :: real)"
    by (rule real_less_rsqrt) (simp add: power2_eq_square)
  then show "0.004527 < sqrt (7150 / 7 / 1000) * (0.00448::real)" by simp
  have "sqrt (7150 / 7 / 1000 :: real) < 1.0107"
    by (rule real_less_lsqrt) (simp_all add: power2_eq_square)
  then show "sqrt (7150 / 7 / 1000) * (0.00448::real) < 0.004528" by simp
qed

lemma js_between_Num: "js_between lo (Num x) hi \<longleftrightarrow> lo < x \<and> x < hi"
  by (simp add: js_between_def)

text \<open>
  Claim C1, amended. On the scenario record the engine returns: wetted area 0.50265 square metres
  (\<open>0.16 \<pi>\<close>), hydraulic diameter 0.8 m exactly, velocity 0.8289 m/s, Reynolds number
  663,146, injected density 1021.4 kilograms per cubic metre (\<open>7150/7\<close>), injected viscosity 0.00114 Pa s, the
  coefficient of variation clamped to 1, headloss 0.00876 m and 0.0859 kPa, mixing distance
  32.6 m, mixing time 39.3 s, neither compliance flag set, momentum ratio 0.0045 and the
  regime Low. Each figure is enclosed tightly enough to fix every printed digit.
\<close>

theorem scenario_results:
  "js_between 0.502654 (wettedArea (calculateMixing scenario)) 0.502655
   \<and> hydraulicDiameter (calculateMixing scenario) = Num 0.8
   \<and> js_between 0.82893 (velocity (calculateMixing scenario)) 0.82894
   \<and> js_between 663145.5 (reynoldsNumber (calculateMixing scenario)) 663146
   \<and> injectedDensity (calculateMixing scenario) = Num (7150 / 7)
   \<and> js_between 1021.42 (injectedDensity (calculateMixing scenario)) 1021.43
   \<and> js_between 0.001137 (injectedViscosity (calculateMixing scenario)) 0.001138
   \<and> mixerCoV (calculateMixing scenario) = Num 1
   \<and> js_between 0.008755 (headlossMeters (calculateMixing scenario)) 0.008756
   \<and> js_between 0.08589 (headloss (calculateMixing scenario)) 0.08590
   \<and> js_between 32.58 (mixingDistanceNeeded (calculateMixing scenario)) 32.61
   \<and> js_between 39.30 (mixingTimeNeeded (calculateMixing scenario)) 39.34
   \<and> isCompliant (calculateMixing scenario) = False
   \<and> isTimeCompliant (calculateMixing scenario) = False
   \<and> js_between 0.004527 (momentumRatio (calculateMixing scenario)) 0.004528
   \<and> momentumRegime (calculateMixing scenario) = ''Low''"
proof -
  let ?r = "calculateMixing scenario"
  have area: "js_between 0.502654 (wettedArea ?r) 0.502655"
    using pi_bounds by (simp add: calculateMixing_def scenario_geometry js_between_Num)
  have dh: "hydraulicDiameter ?r = Num 0.8"
    by (simp add: calculateMixing_def scenario_geometry)
  have v: "js_between 0.82893 (velocity ?r) 0.82894"
    using scenario_velocity_bounds
    by (simp add: calculateMixing_def scenario_velocity js_between_Num)
  have re: "js_between 663145.5 (reynoldsNumber ?r) 663146"
    using scenario_velocity_bounds
    by (simp add: calculateMixing_def scenario_Re js_between_Num)
  have idn: "injectedDensity ?r = Num (7150 / 7)"
    by (simp add: calculateMixing_def scenario_injDensity)
  have idb: "js_between 1021.42 (injectedDensity ?r) 1021.43"
    unfolding idn by (simp add: js_between_Num)
  have iv: "js_between 0.001137 (injectedViscosity ?r) 0.001138"
    using scenario_injVisc_bounds
    by (simp add: calculateMixing_def scenario_injVisc js_between_Num)
  have cov: "mixerCoV ?r = Num 1"
    by (simp add: calculateMixing_def scenario_mixerCoV)
  have hm: "js_between 0.008755 (headlossMeters ?r) 0.008756"
    using scenario_headloss_bounds(1,2)
    by (simp add: calculateMixing_def scenario_headlossM js_between_Num)
  have hk: "js_between 0.08589 (headloss ?r) 0.08590"
    using scenario_headloss_bounds(3,4)
    by (simp add: calculateMixing_def scenario_headlossKpa js_between_Num)
  have md: "js_between 32.58 (mixingDistanceNeeded ?r) 32.61"
    using scenario_distance_bounds
    by (simp add: calculateMixing_def scenario_distance js_between_Num)
  have vn: "125 / (48 * pi) \<noteq> 0" by simp
  have mtv: "mixingTimeNeeded ?r =
      Num ((10 + ln 20 / (0.75 * sqrt 0.02) * 0.8) / (125 / (48 * pi)))"
    unfolding calculateMixing_def scenario_distance scenario_velocity
    by (simp only: CalculationResults.simps js_div_Num [OF vn])
  have mt: "js_between 39.30 (mixingTimeNeeded ?r) 39.34"
    unfolding mtv js_between_Num using scenario_time_bounds by simp
  have ic: "isCompliant ?r = False"
    by (simp add: calculateMixing_def scenario_mixerCoV tCoV_of_def scenario_fields js_or_def)
  have "isTimeCompliant ?r =
      js_le (Num ((10 + ln 20 / (0.75 * sqrt 0.02) * 0.8) / (125 / (48 * pi)))) (Num 10)"
    unfolding calculateMixing_def scenario_distance scenario_velocity
    by (simp only: CalculationResults.simps js_div_Num [OF vn] scenario_fields)
  then have itc: "isTimeCompliant ?r = False"
    using scenario_time_bounds(1) by simp
  have mrv: "momentumRatio ?r = Num (sqrt (7150 / 7 / 1000) * 0.00448)"
    by (simp add: calculateMixing_def scenario_momentum)
  have mr: "js_between 0.004527 (momentumRatio ?r) 0.004528"
    unfolding mrv js_between_Num using scenario_momentum_bounds by simp
  have "momentumRegime ?r = regime_of (Num (sqrt (7150 / 7 / 1000) * 0.00448))"
    by (simp add: calculateMixing_def scenario_momentum)
  then have rg: "momentumRegime ?r = ''Low''"
    using scenario_momentum_bounds(2) by (simp add: regime_of_def)
  show ?thesis using area dh v re idn idb iv cov hm hk md mt ic itc mr rg by blast
qed

text \<open>
  Claim C1 as stated gives the velocity as 0.8291 m/s and the Reynolds number as 663,256.
  The engine returns neither figure at the printed precision: the velocity
  \<open>(1500/3600) / (0.16 \<pi>)\<close> is below 0.82894 and the Reynolds number, 800000 times the
  velocity, is below 663,146.
\<close>

theorem scenario_velocity_reynolds_counterexample:
  "\<not> js_between 0.82905 (velocity (calculateMixing scenario)) 0.82915
   \<and> \<not> js_between 663255.5 (reynoldsNumber (calculateMixing scenario)) 663256.5"
  using scenario_velocity_bounds
  by (simp add: calculateMixing_def scenario_velocity scenario_Re js_between_Num)

end
